theory Spec2Isabelle
  imports Complex_Main "HOL-Library.Multiset"
begin

section \<open>JavaScript values and strings\<close>

text \<open>
  The program is \<^verbatim>\<open>src/app.js\<close>, the class \<^verbatim>\<open>CarExpenseTracker\<close>.
  A JavaScript string is a sequence of UTF-16 code units, modelled as a list of naturals;
  \<open>ascii\<close> writes a string of ASCII characters. Numbers are modelled as integers: the
  program's toll, fuel, total and timestamp values are integer-valued, and arithmetic on
  them is exact (as it is on doubles up to \<open>2^53\<close>); \<open>NaN\<close> is the value \<open>None\<close> of
  an \<open>int option\<close>.
\<close>

type_synonym jsstring = "nat list"

definition ascii :: "string \<Rightarrow> jsstring" where
  "ascii s = map of_char s"

datatype jsval = JUndefined | JNull | JBool bool | JNum int | JStr jsstring

text \<open>\<open>ToBoolean\<close>: \<open>undefined\<close>, \<open>null\<close>, \<open>false\<close>, \<open>0\<close> and the empty string are falsy.\<close>

fun truthy :: "jsval \<Rightarrow> bool" where
  "truthy JUndefined = False"
| "truthy JNull = False"
| "truthy (JBool b) = b"
| "truthy (JNum n) = (n \<noteq> 0)"
| "truthy (JStr s) = (s \<noteq> [])"

text \<open>The operator \<^verbatim>\<open>a || b\<close> on values.\<close>

definition orElse :: "jsval \<Rightarrow> jsval \<Rightarrow> jsval" where
  "orElse a b = (if truthy a then a else b)"

text \<open>
  White space as \<^verbatim>\<open>String.prototype.trim\<close> and \<^verbatim>\<open>parseInt\<close> strip it
  (ECMAScript WhiteSpace and LineTerminator): TAB, LF, VT, FF, CR, SP, NBSP, U+1680,
  U+2000 to U+200A, U+2028, U+2029, U+202F, U+205F, U+3000, U+FEFF.
\<close>

definition isWhiteSpace :: "nat \<Rightarrow> bool" where
  "isWhiteSpace c =
     ((9 \<le> c \<and> c \<le> 13) \<or> c = 32 \<or> c = 160 \<or> c = 5760 \<or> (8192 \<le> c \<and> c \<le> 8202)
      \<or> c = 8232 \<or> c = 8233 \<or> c = 8239 \<or> c = 8287 \<or> c = 12288 \<or> c = 65279)"

definition trim :: "jsstring \<Rightarrow> jsstring" where
  "trim s = rev (dropWhile isWhiteSpace (rev (dropWhile isWhiteSpace s)))"

text \<open>\<^verbatim>\<open>s.includes(t)\<close>: \<open>t\<close> occurs in \<open>s\<close> as a contiguous block.\<close>

fun startsWith :: "jsstring \<Rightarrow> jsstring \<Rightarrow> bool" where
  "startsWith s [] = True"
| "startsWith [] (c # t) = False"
| "startsWith (d # s) (c # t) = (d = c \<and> startsWith s t)"

fun includesStr :: "jsstring \<Rightarrow> jsstring \<Rightarrow> bool" where
  "includesStr [] t = (t = [])"
| "includesStr (d # s) t = (startsWith (d # s) t \<or> includesStr s t)"

text \<open>
  \<open>ToString\<close> of an integer-valued number, after ECMAScript's \<open>Number::toString\<close>:
  below \<open>10^21\<close> the decimal digits; from \<open>10^21\<close> on the exponent form, the first
  digit, a point and the further digits up to the last one that is not zero, then
  \<^verbatim>\<open>e+\<close> and the exponent. (JavaScript prints the shortest digits that identify the
  double, at most seventeen; the model prints the digits of the integer. \<^verbatim>\<open>parseInt\<close>
  reads the first digit only, on either.) A negative number gets a minus sign.
\<close>

fun digits :: "nat \<Rightarrow> jsstring" where
  "digits n = (if n < 10 then [48 + n] else digits (n div 10) @ [48 + n mod 10])"

declare digits.simps [simp del]

definition exponential :: "nat \<Rightarrow> jsstring" where
  "exponential m =
     (let ds = digits m;
          mantissa = rev (dropWhile (\<lambda>c. c = 48) (rev ds))
      in (case mantissa of
            [] \<Rightarrow> []
          | c # cs \<Rightarrow> c # (if cs = [] then [] else 46 # cs))
         @ [101, 43] @ digits (length ds - 1))"

definition numberToString :: "int \<Rightarrow> jsstring" where
  "numberToString n =
     (let m = nat \<bar>n\<bar>;
          s = (if m < 10 ^ 21 then digits m else exponential m)
      in if n < 0 then 45 # s else s)"

fun ToString :: "jsval \<Rightarrow> jsstring" where
  "ToString JUndefined = ascii ''undefined''"
| "ToString JNull = ascii ''null''"
| "ToString (JBool b) = (if b then ascii ''true'' else ascii ''false'')"
| "ToString (JNum n) = numberToString n"
| "ToString (JStr s) = s"

text \<open>
  \<^verbatim>\<open>parseInt(v)\<close> with no radix, after ECMAScript: convert to a string, strip leading
  white space, read a sign, read a \<^verbatim>\<open>0x\<close> or \<^verbatim>\<open>0X\<close> prefix (radix 16, otherwise 10),
  take the longest run of digits of the radix; no digit gives \<open>NaN\<close>.
\<close>

definition digitValue :: "nat \<Rightarrow> nat option" where
  "digitValue c =
     (if 48 \<le> c \<and> c \<le> 57 then Some (c - 48)
      else if 97 \<le> c \<and> c \<le> 122 then Some (c - 87)
      else if 65 \<le> c \<and> c \<le> 90 then Some (c - 55)
      else None)"

definition isRadixDigit :: "nat \<Rightarrow> nat \<Rightarrow> bool" where
  "isRadixDigit R c = (case digitValue c of None \<Rightarrow> False | Some d \<Rightarrow> d < R)"

fun stripSign :: "jsstring \<Rightarrow> int \<times> jsstring" where
  "stripSign [] = (1, [])"
| "stripSign (c # cs) =
     (if c = 45 then (- 1, cs) else if c = 43 then (1, cs) else (1, c # cs))"

fun stripPrefix :: "jsstring \<Rightarrow> nat \<times> jsstring" where
  "stripPrefix (a # b # cs) =
     (if a = 48 \<and> (b = 120 \<or> b = 88) then (16, cs) else (10, a # b # cs))"
| "stripPrefix cs = (10, cs)"

definition radixValue :: "nat \<Rightarrow> jsstring \<Rightarrow> nat" where
  "radixValue R Z =
     foldl (\<lambda>acc c. case digitValue c of None \<Rightarrow> acc | Some d \<Rightarrow> acc * R + d) 0 Z"

definition parseInt :: "jsval \<Rightarrow> int option" where
  "parseInt v =
     (let (sign, S) = stripSign (dropWhile isWhiteSpace (ToString v));
          (R, S') = stripPrefix S;
          Z = takeWhile (isRadixDigit R) S'
      in if Z = [] then None else Some (sign * int (radixValue R Z)))"

text \<open>
  \<^verbatim>\<open>parseInt(v) || 0\<close>: \<open>NaN\<close> and \<open>0\<close> are falsy, so both give \<open>0\<close>; any other
  number is kept.
\<close>

definition orZero :: "int option \<Rightarrow> int" where
  "orZero p = (case p of None \<Rightarrow> 0 | Some n \<Rightarrow> n)"

section \<open>Records\<close>

text \<open>
  A record of the ledger is the object literal that \<^verbatim>\<open>handleFormSubmit\<close>,
  \<^verbatim>\<open>handleUpload\<close> and \<^verbatim>\<open>generateMockHistory\<close> build. The four label fields hold
  whatever value the creating path put there (an imported row can carry a number or a
  boolean in a label column), so they are values, not strings. The field \<^verbatim>\<open>id\<close> is
  \<open>ident\<close> here.
\<close>

record trip =
  ident :: rat
  date :: jsval
  route :: jsval
  startPoint :: jsval
  endPoint :: jsval
  toll :: int
  fuel :: int
  total :: int
  timestamp :: int

text \<open>
  What a handler reads from the clock and the random generator while it builds one
  record: \<^verbatim>\<open>Date.now()\<close> (read twice, for the identifier and the timestamp, and taken
  to give the same number both times), \<^verbatim>\<open>Math.random()\<close> (a number in \<open>[0, 1)\<close>) and
  \<^verbatim>\<open>new Date().toLocaleDateString('ko-KR')\<close>.
\<close>

record draws =
  now :: int
  rand :: rat
  today :: jsstring

text \<open>The separator of a route label, \<^verbatim>\<open>" -> "\<close> with the arrow U+2192.\<close>

definition arrow :: jsstring where
  "arrow = [32, 8594, 32]"

text \<open>\<^verbatim>\<open>simulateTollFee\<close>: \<^verbatim>\<open>Math.floor(Math.random() * 5000) + 1000\<close>, from the draw \<open>u\<close>.\<close>

definition simulateTollFee :: "rat \<Rightarrow> int" where
  "simulateTollFee u = \<lfloor>u * 5000\<rfloor> + 1000"

text \<open>\<^verbatim>\<open>validateForm\<close>: both fields are non-empty after trimming.\<close>

definition validateForm :: "jsstring \<Rightarrow> jsstring \<Rightarrow> bool" where
  "validateForm startPointValue endPointValue =
     (let isValid = True;
          isValid = (if trim startPointValue = [] then False else isValid);
          isValid = (if trim endPointValue = [] then False else isValid)
      in isValid)"

text \<open>
  The record literal of \<^verbatim>\<open>handleFormSubmit\<close>, from the values of the three form fields,
  the draw \<open>u\<close> of the toll simulation and the draws \<open>d\<close> of the identifier and the clock.
\<close>

definition formRecord :: "draws \<Rightarrow> rat \<Rightarrow> jsstring \<Rightarrow> jsstring \<Rightarrow> jsstring \<Rightarrow> trip" where
  "formRecord d u startPointValue endPointValue fuelCostValue =
     (let startPoint = trim startPointValue;
          endPoint = trim endPointValue;
          tollFee = simulateTollFee u;
          fuelCost = orZero (parseInt (JStr fuelCostValue))
      in \<lparr>ident = of_int (now d) + rand d,
          date = JStr (today d),
          route = JStr (startPoint @ arrow @ endPoint),
          startPoint = JStr startPoint,
          endPoint = JStr endPoint,
          toll = tollFee,
          fuel = fuelCost,
          total = tollFee + fuelCost,
          timestamp = now d\<rparr>)"

section \<open>The controller's state and its view\<close>

text \<open>
  The fields of \<^verbatim>\<open>CarExpenseTracker\<close> that the handlers read and write, and the part of
  the page they render: the total, the list (\<open>Notice\<close> is the text shown for an empty
  ledger, \<open>Items\<close> the rendered page), the pagination controls (\<open>Shown\<close> carries the
  disabled flags of the two buttons and the two numbers of the page indicator) and the
  export button. \<^verbatim>\<open>recordsPerPage\<close> is set to 20 by the constructor and never assigned
  again. Toasts, button spinners, the form's own fields and the debounced write to
  \<^verbatim>\<open>localStorage\<close> do not touch these fields and are left out.
\<close>

datatype listing = Notice | Items "trip list"

datatype pager = Hidden | Shown bool bool int int

record state =
  records :: "trip list"
  filteredRecords :: "trip list"
  totalCost :: int
  currentPage :: int
  totalCostShown :: int
  recordsShown :: listing
  paginationShown :: pager
  exportDisabled :: bool

definition recordsPerPage :: int where
  "recordsPerPage = 20"

definition getTotalPages :: "state \<Rightarrow> int" where
  "getTotalPages st =
     (let totalRecords =
            (if length (filteredRecords st) > 0 then int (length (filteredRecords st))
             else int (length (records st)))
      in \<lceil>(of_int totalRecords :: rat) / of_int recordsPerPage\<rceil>)"

text \<open>
  \<^verbatim>\<open>Array.prototype.slice(start, stop)\<close>: a negative index counts from the end, and both
  are clamped to the array.
\<close>

definition slice :: "'a list \<Rightarrow> int \<Rightarrow> int \<Rightarrow> 'a list" where
  "slice xs start stop =
     (let len = int (length xs);
          k = (if start < 0 then max (len + start) 0 else min start len);
          final = (if stop < 0 then max (len + stop) 0 else min stop len)
      in take (nat (final - k)) (drop (nat k) xs))"

definition updateTotalCost :: "state \<Rightarrow> state" where
  "updateTotalCost st = st\<lparr>totalCostShown := totalCost st\<rparr>"

definition updateRecordsList :: "state \<Rightarrow> state" where
  "updateRecordsList st =
     (let records =
            (if length (filteredRecords st) > 0 then filteredRecords st else records st)
      in if length records = 0 then st\<lparr>recordsShown := Notice\<rparr>
         else
           (let startIndex = (currentPage st - 1) * recordsPerPage;
                endIndex = startIndex + recordsPerPage;
                pageRecords = slice records startIndex endIndex
            in st\<lparr>recordsShown := Items pageRecords\<rparr>))"

definition updatePagination :: "state \<Rightarrow> state" where
  "updatePagination st =
     (let totalPages = getTotalPages st
      in if totalPages \<le> 1 then st\<lparr>paginationShown := Hidden\<rparr>
         else st\<lparr>paginationShown :=
                  Shown (currentPage st = 1) (currentPage st = totalPages)
                    (currentPage st) totalPages\<rparr>)"

definition updateExportButton :: "state \<Rightarrow> state" where
  "updateExportButton st = st\<lparr>exportDisabled := (length (records st) = 0)\<rparr>"

definition updateUI :: "state \<Rightarrow> state" where
  "updateUI st =
     updateExportButton (updatePagination (updateRecordsList (updateTotalCost st)))"

section \<open>Adding a record\<close>

text \<open>\<^verbatim>\<open>addRecord\<close>: \<^verbatim>\<open>unshift\<close> puts the record first; the total is incremented.\<close>

definition addRecord :: "trip \<Rightarrow> state \<Rightarrow> state" where
  "addRecord record st =
     updateUI (st\<lparr>records := record # records st,
                  totalCost := totalCost st + total record\<rparr>)"

text \<open>\<^verbatim>\<open>handleFormSubmit\<close>: nothing happens when the validation fails.\<close>

definition handleFormSubmit ::
  "draws \<Rightarrow> rat \<Rightarrow> jsstring \<Rightarrow> jsstring \<Rightarrow> jsstring \<Rightarrow> state \<Rightarrow> state" where
  "handleFormSubmit d u startPointValue endPointValue fuelCostValue st =
     (if \<not> validateForm startPointValue endPointValue then st
      else addRecord (formRecord d u startPointValue endPointValue fuelCostValue) st)"

section \<open>Search, sort and pagination\<close>

text \<open>
  The predicate of the filter in \<^verbatim>\<open>handleSearch\<close>:
  \<^verbatim>\<open>record.route.toLowerCase().includes(searchTerm) || record.date.includes(searchTerm)\<close>.
  Calling a string method on a value that is not a string throws a TypeError, the
  result \<open>None\<close>. The Unicode case mapping of \<^verbatim>\<open>toLowerCase\<close> is the parameter
  \<open>lower\<close>.
\<close>

definition matches :: "(jsstring \<Rightarrow> jsstring) \<Rightarrow> jsstring \<Rightarrow> trip \<Rightarrow> bool option" where
  "matches lower searchTerm record =
     (case route record of
        JStr r \<Rightarrow>
          if includesStr (lower r) searchTerm then Some True
          else (case date record of
                  JStr d \<Rightarrow> Some (includesStr d searchTerm)
                | _ \<Rightarrow> None)
      | _ \<Rightarrow> None)"

text \<open>\<^verbatim>\<open>Array.prototype.filter\<close> with a predicate that may throw: the first throw ends it.\<close>

fun filterRecords :: "(trip \<Rightarrow> bool option) \<Rightarrow> trip list \<Rightarrow> trip list option" where
  "filterRecords p [] = Some []"
| "filterRecords p (r # rs) =
     (case p r of
        None \<Rightarrow> None
      | Some b \<Rightarrow>
          (case filterRecords p rs of
             None \<Rightarrow> None
           | Some ys \<Rightarrow> Some (if b then r # ys else ys)))"

datatype completion = Normal | TypeError

text \<open>
  \<^verbatim>\<open>handleSearch\<close>, on the value of the search box. A throw inside the filter leaves
  the handler before any field is assigned.
\<close>

definition handleSearch ::
  "(jsstring \<Rightarrow> jsstring) \<Rightarrow> jsstring \<Rightarrow> state \<Rightarrow> completion \<times> state" where
  "handleSearch lower searchInputValue st =
     (let searchTerm = trim (lower searchInputValue)
      in if searchTerm = [] then
           (Normal,
            updatePagination (updateRecordsList
              (st\<lparr>filteredRecords := records st, currentPage := 1\<rparr>)))
         else
           (case filterRecords (matches lower searchTerm) (records st) of
              None \<Rightarrow> (TypeError, st)
            | Some found \<Rightarrow>
                (Normal,
                 updatePagination (updateRecordsList
                   (st\<lparr>filteredRecords := found, currentPage := 1\<rparr>)))))"

text \<open>The comparison function of \<^verbatim>\<open>handleSort\<close>, a \<^verbatim>\<open>switch\<close> on the selected value.\<close>

definition compareFn :: "jsstring \<Rightarrow> trip \<Rightarrow> trip \<Rightarrow> int" where
  "compareFn sortValue a b =
     (if sortValue = ascii ''date-desc'' then timestamp b - timestamp a
      else if sortValue = ascii ''date-asc'' then timestamp a - timestamp b
      else if sortValue = ascii ''cost-desc'' then total b - total a
      else if sortValue = ascii ''cost-asc'' then total a - total b
      else 0)"

text \<open>
  \<^verbatim>\<open>Array.prototype.sort(compareFn)\<close> is a stable sort: each element goes before the
  first element of the sorted rest that it does not come after, so equal elements keep
  their order.
\<close>

fun insertSorted :: "('a \<Rightarrow> 'a \<Rightarrow> int) \<Rightarrow> 'a \<Rightarrow> 'a list \<Rightarrow> 'a list" where
  "insertSorted cmp x [] = [x]"
| "insertSorted cmp x (y # ys) =
     (if cmp x y \<le> 0 then x # y # ys else y # insertSorted cmp x ys)"

definition sortBy :: "('a \<Rightarrow> 'a \<Rightarrow> int) \<Rightarrow> 'a list \<Rightarrow> 'a list" where
  "sortBy cmp xs = foldr (insertSorted cmp) xs []"

definition handleSort :: "jsstring \<Rightarrow> state \<Rightarrow> state" where
  "handleSort sortValue st =
     (let records =
            (if length (filteredRecords st) > 0 then filteredRecords st else records st);
          sortedRecords = sortBy (compareFn sortValue) records;
          st' = (if length (filteredRecords st) > 0
                 then st\<lparr>filteredRecords := sortedRecords\<rparr>
                 else st\<lparr>records := sortedRecords\<rparr>)
      in updatePagination (updateRecordsList (st'\<lparr>currentPage := 1\<rparr>)))"

definition changePage :: "int \<Rightarrow> state \<Rightarrow> state" where
  "changePage direction st =
     (let totalPages = getTotalPages st;
          newPage = currentPage st + direction
      in if newPage \<ge> 1 \<and> newPage \<le> totalPages
         then updatePagination (updateRecordsList (st\<lparr>currentPage := newPage\<rparr>))
         else st)"

section \<open>Export and import of rows\<close>

text \<open>
  A row is an object with labelled columns; reading a column that the row does not have
  gives \<open>undefined\<close>. The seven labels are Korean words, given by their code units:
  date (U+B0A0 U+C9DC), origin (U+CD9C U+BC1C U+C9C0), destination (U+B3C4 U+CC29 U+C9C0),
  route (U+ACBD U+B85C), toll (U+D1B5 U+D589 U+B8CC), fuel (U+C8FC U+C720 U+BE44) and
  total (U+CD1D U+BE44 U+C6A9). The label for an unknown place is
  U+C54C U+0020 U+C218 U+0020 U+C5C6 U+C74C.
\<close>

type_synonym row = "(jsstring \<times> jsval) list"

definition column :: "row \<Rightarrow> jsstring \<Rightarrow> jsval" where
  "column r k = (case map_of r k of None \<Rightarrow> JUndefined | Some v \<Rightarrow> v)"

definition keyDate :: jsstring where "keyDate = [45216, 51676]"
definition keyStartPoint :: jsstring where "keyStartPoint = [52636, 48156, 51648]"
definition keyEndPoint :: jsstring where "keyEndPoint = [46020, 52265, 51648]"
definition keyRoute :: jsstring where "keyRoute = [44221, 47196]"
definition keyToll :: jsstring where "keyToll = [53685, 54665, 47308]"
definition keyFuel :: jsstring where "keyFuel = [51452, 50976, 48708]"
definition keyTotal :: jsstring where "keyTotal = [52509, 48708, 50857]"

definition unknownLabel :: jsstring where
  "unknownLabel = [50508, 32, 49688, 32, 50630, 51020]"

text \<open>The object that \<^verbatim>\<open>handleExport\<close> maps each record to.\<close>

definition exportRow :: "trip \<Rightarrow> row" where
  "exportRow record =
     [(keyDate, date record),
      (keyStartPoint, startPoint record),
      (keyEndPoint, endPoint record),
      (keyRoute, route record),
      (keyToll, JNum (toll record)),
      (keyFuel, JNum (fuel record)),
      (keyTotal, JNum (total record))]"

text \<open>
  \<^verbatim>\<open>handleExport\<close> up to the rows it hands to the spreadsheet library: nothing when the
  ledger is empty or the library could not be loaded.
\<close>

definition handleExport :: "bool \<Rightarrow> state \<Rightarrow> row list option" where
  "handleExport loaded st =
     (if length (records st) = 0 then None
      else if \<not> loaded then None
      else Some (map exportRow (records st)))"

text \<open>
  The record literal in the loop of \<^verbatim>\<open>handleUpload\<close>, for one row, the draws of that
  iteration and the number of rows imported before it.
\<close>

definition importRecord :: "draws \<Rightarrow> int \<Rightarrow> row \<Rightarrow> trip" where
  "importRecord d importedCount r =
     \<lparr>ident = of_int (now d) + rand d,
      date = orElse (column r keyDate) (JStr (today d)),
      route = orElse (column r keyRoute)
        (JStr (ToString (orElse (column r keyStartPoint) (JStr unknownLabel)) @ arrow @
               ToString (orElse (column r keyEndPoint) (JStr unknownLabel)))),
      startPoint = orElse (column r keyStartPoint) (JStr unknownLabel),
      endPoint = orElse (column r keyEndPoint) (JStr unknownLabel),
      toll = orZero (parseInt (column r keyToll)),
      fuel = orZero (parseInt (column r keyFuel)),
      total = orZero (parseInt (column r keyToll)) + orZero (parseInt (column r keyFuel)),
      timestamp = now d + importedCount\<rparr>"

text \<open>
  The \<^verbatim>\<open>forEach\<close> of \<^verbatim>\<open>handleUpload\<close>: each record is pushed to the end of the ledger
  and added to the total. \<open>ds k\<close> are the draws of iteration \<open>k\<close>.
\<close>

fun importRows :: "(nat \<Rightarrow> draws) \<Rightarrow> nat \<Rightarrow> row list \<Rightarrow> state \<Rightarrow> state" where
  "importRows ds importedCount [] st = st"
| "importRows ds importedCount (r # rs) st =
     (let record = importRecord (ds importedCount) (int importedCount) r
      in importRows ds (Suc importedCount) rs
           (st\<lparr>records := records st @ [record],
               totalCost := totalCost st + total record\<rparr>))"

text \<open>The records that the loop builds from the rows, in order.\<close>

fun importedRecords :: "(nat \<Rightarrow> draws) \<Rightarrow> nat \<Rightarrow> row list \<Rightarrow> trip list" where
  "importedRecords ds importedCount [] = []"
| "importedRecords ds importedCount (r # rs) =
     importRecord (ds importedCount) (int importedCount) r
       # importedRecords ds (Suc importedCount) rs"

text \<open>
  \<^verbatim>\<open>handleUpload\<close>, from the rows that \<^verbatim>\<open>sheet_to_json\<close> returned; \<open>None\<close> stands for
  every way of not getting rows (no file chosen, the library not loaded, the reader or
  the library throwing), all of which leave before the loop.
\<close>

definition handleUpload :: "(nat \<Rightarrow> draws) \<Rightarrow> row list option \<Rightarrow> state \<Rightarrow> state" where
  "handleUpload ds sheet st =
     (case sheet of
        None \<Rightarrow> st
      | Some jsonData \<Rightarrow> updateUI (importRows ds 0 jsonData st))"

section \<open>Loading from storage\<close>

text \<open>
  \<^verbatim>\<open>loadFromLocalStorage\<close> assigns what the stored payload holds without looking at its
  shape, so the two fields it writes are modelled as the JSON values themselves.
  \<^verbatim>\<open>JSON.parse\<close> is the parameter \<open>parse\<close>, with \<open>None\<close> for a SyntaxError. Reading a
  member of \<open>null\<close> throws; reading a member that a value does not have gives
  \<open>undefined\<close>, the \<open>None\<close> of \<open>getMember\<close> (the two members read here, \<^verbatim>\<open>records\<close> and
  \<^verbatim>\<open>totalCost\<close>, are no built-in members of a string or an array).
\<close>

datatype json =
  JsonNull | JsonBool bool | JsonNum int | JsonStr jsstring
  | JsonArr "json list" | JsonObj "(jsstring \<times> json) list"

datatype exn = Exception

fun jsonTruthy :: "json \<Rightarrow> bool" where
  "jsonTruthy JsonNull = False"
| "jsonTruthy (JsonBool b) = b"
| "jsonTruthy (JsonNum n) = (n \<noteq> 0)"
| "jsonTruthy (JsonStr s) = (s \<noteq> [])"
| "jsonTruthy (JsonArr xs) = True"
| "jsonTruthy (JsonObj kvs) = True"

fun getMember :: "json \<Rightarrow> jsstring \<Rightarrow> exn + json option" where
  "getMember JsonNull k = Inl Exception"
| "getMember (JsonObj kvs) k = Inr (map_of kvs k)"
| "getMember v k = Inr None"

text \<open>\<^verbatim>\<open>member || fallback\<close>.\<close>

definition orDefault :: "json option \<Rightarrow> json \<Rightarrow> json" where
  "orDefault m fallback =
     (case m of None \<Rightarrow> fallback | Some v \<Rightarrow> if jsonTruthy v then v else fallback)"

record stored =
  recordsField :: json
  totalCostField :: json

text \<open>
  The \<^verbatim>\<open>try\<close> block. \<open>got\<close> is the result of \<^verbatim>\<open>localStorage.getItem\<close>: \<open>None\<close> when the
  call throws, \<open>Some None\<close> for \<open>null\<close> (no such key), \<open>Some (Some saved)\<close> for a string.
\<close>

definition loadAttempt ::
  "(jsstring \<Rightarrow> json option) \<Rightarrow> jsstring option option \<Rightarrow> stored \<Rightarrow> exn + stored" where
  "loadAttempt parse got st =
     (case got of
        None \<Rightarrow> Inl Exception
      | Some None \<Rightarrow> Inr st
      | Some (Some saved) \<Rightarrow>
          if saved = [] then Inr st
          else
            (case parse saved of
               None \<Rightarrow> Inl Exception
             | Some data \<Rightarrow>
                 (case getMember data (ascii ''records'') of
                    Inl e \<Rightarrow> Inl e
                  | Inr rs \<Rightarrow>
                      (case getMember data (ascii ''totalCost'') of
                         Inl e \<Rightarrow> Inl e
                       | Inr tc \<Rightarrow>
                           Inr (st\<lparr>recordsField := orDefault rs (JsonArr []),
                                   totalCostField := orDefault tc (JsonNum 0)\<rparr>)))))"

text \<open>The whole function: the \<^verbatim>\<open>catch\<close> block resets both fields and returns normally.\<close>

definition loadFromLocalStorage ::
  "(jsstring \<Rightarrow> json option) \<Rightarrow> jsstring option option \<Rightarrow> stored \<Rightarrow> exn + stored" where
  "loadFromLocalStorage parse got st =
     (case loadAttempt parse got st of
        Inl e \<Rightarrow> Inr (st\<lparr>recordsField := JsonArr [], totalCostField := JsonNum 0\<rparr>)
      | Inr st' \<Rightarrow> Inr st')"

section \<open>Notions used in the properties\<close>

text \<open>
  The state the constructor sets up, before \<^verbatim>\<open>init\<close> loads the stored or the sample
  records: no records, no filter, total 0, page 1; the page shows what \<^verbatim>\<open>updateUI\<close>
  renders for it. The examples build their ledgers from it with the program's own
  actions.
\<close>

definition emptyState :: state where
  "emptyState =
     \<lparr>records = [], filteredRecords = [], totalCost = 0, currentPage = 1,
      totalCostShown = 0, recordsShown = Notice, paginationShown = Hidden,
      exportDisabled = True\<rparr>"

text \<open>
  The working list,
  \<^verbatim>\<open>this.filteredRecords.length > 0 ? this.filteredRecords : this.records\<close>: the list
  that \<^verbatim>\<open>updateRecordsList\<close> and \<^verbatim>\<open>handleSort\<close> work on and whose length
  \<^verbatim>\<open>getTotalPages\<close> takes.
\<close>

definition workingRecords :: "state \<Rightarrow> trip list" where
  "workingRecords st =
     (if length (filteredRecords st) > 0 then filteredRecords st else records st)"

text \<open>The number of records that the list shows.\<close>

fun shownCount :: "listing \<Rightarrow> nat" where
  "shownCount Notice = 0"
| "shownCount (Items page) = length page"

text \<open>The part of \<^verbatim>\<open>toLowerCase\<close> on ASCII letters, for the examples.\<close>

definition toLowerAscii :: "jsstring \<Rightarrow> jsstring" where
  "toLowerAscii s = map (\<lambda>c. if 65 \<le> c \<and> c \<le> 90 then c + 32 else c) s"

text \<open>Draws for the examples: a clock reading, a random number and a date string.\<close>

definition sampleDraws :: draws where
  "sampleDraws = \<lparr>now = 1700000000000, rand = 1 / 2, today = ascii ''2023. 11. 15.''\<rparr>"

text \<open>The same draws in every iteration of an import.\<close>

definition steadyDraws :: "nat \<Rightarrow> draws" where
  [simp]: "steadyDraws k = sampleDraws"

text \<open>Two records for the examples, a cheap trip and a dear one.\<close>

definition cheapTrip :: trip where
  "cheapTrip =
     \<lparr>ident = 1, date = JStr (ascii ''2023. 11. 14.''),
      route = JStr (ascii ''A'' @ arrow @ ascii ''B''), startPoint = JStr (ascii ''A''),
      endPoint = JStr (ascii ''B''), toll = 1000, fuel = 0, total = 1000, timestamp = 1\<rparr>"

definition dearTrip :: trip where
  "dearTrip =
     \<lparr>ident = 2, date = JStr (ascii ''2023. 11. 15.''),
      route = JStr (ascii ''B'' @ arrow @ ascii ''C''), startPoint = JStr (ascii ''B''),
      endPoint = JStr (ascii ''C''), toll = 5000, fuel = 20000, total = 25000,
      timestamp = 2\<rparr>"

text \<open>
  A stored text whose records member is no array,
  \<^verbatim>\<open>{"records":"oops","totalCost":5}\<close> by its code units, and what \<^verbatim>\<open>JSON.parse\<close>
  gives on it; \<open>parseOdd\<close> stands for \<^verbatim>\<open>JSON.parse\<close> in the examples, where every
  other text used is not valid JSON.
\<close>

definition oddPayload :: jsstring where
  "oddPayload =
     [123, 34, 114, 101, 99, 111, 114, 100, 115, 34, 58, 34, 111, 111, 112, 115, 34, 44,
      34, 116, 111, 116, 97, 108, 67, 111, 115, 116, 34, 58, 53, 125]"

definition parseOdd :: "jsstring \<Rightarrow> json option" where
  "parseOdd s =
     (if s = oddPayload
      then Some (JsonObj [(ascii ''records'', JsonStr (ascii ''oops'')),
                          (ascii ''totalCost'', JsonNum 5)])
      else None)"

text \<open>
  The member of a parsed value that is not \<open>null\<close>, \<open>None\<close> for \<open>undefined\<close>.
\<close>

definition memberOf :: "json \<Rightarrow> jsstring \<Rightarrow> json option" where
  "memberOf data k = (case getMember data k of Inl e \<Rightarrow> None | Inr m \<Rightarrow> m)"

text \<open>
  The decimal digits, and what the claims call a numeric value: a number, or a text that
  is wholly a decimal numeral, that is an optional sign, digits, and optionally a point
  and further digits, with white space allowed around it.
\<close>

definition isDecimalDigit :: "nat \<Rightarrow> bool" where
  "isDecimalDigit c = (48 \<le> c \<and> c \<le> 57)"

fun isNumeric :: "jsval \<Rightarrow> bool" where
  "isNumeric (JNum n) = True"
| "isNumeric (JStr s) =
     (let unsigned = (case trim s of
                        [] \<Rightarrow> []
                      | c # cs \<Rightarrow> if c = 43 \<or> c = 45 then cs else c # cs);
          whole = takeWhile isDecimalDigit unsigned;
          after = dropWhile isDecimalDigit unsigned
      in whole \<noteq> []
         \<and> (case after of
               [] \<Rightarrow> True
             | c # fraction \<Rightarrow> c = 46 \<and> fraction \<noteq> [] \<and> list_all isDecimalDigit fraction))"
| "isNumeric v = False"

text \<open>
  A value has a leading digit when it is a number, or a text that, after leading white
  space and one optional sign, begins with a decimal digit, whatever follows the digit.
  It carries a minus sign when it is a negative number, or a text whose first character
  after leading white space is \<^verbatim>\<open>-\<close>.
\<close>

fun hasLeadingDigit :: "jsval \<Rightarrow> bool" where
  "hasLeadingDigit (JNum n) = True"
| "hasLeadingDigit (JStr s) =
     (case snd (stripSign (dropWhile isWhiteSpace s)) of
        [] \<Rightarrow> False
      | c # cs \<Rightarrow> 48 \<le> c \<and> c \<le> 57)"
| "hasLeadingDigit v = False"

fun hasMinusSign :: "jsval \<Rightarrow> bool" where
  "hasMinusSign (JNum n) = (n < 0)"
| "hasMinusSign (JStr s) =
     (case dropWhile isWhiteSpace s of [] \<Rightarrow> False | c # cs \<Rightarrow> c = 45)"
| "hasMinusSign v = False"

text \<open>
  The text after the decimal numeral of \<open>n\<close> ends the numeral: it is empty or begins
  with a character that is no decimal digit and, after a lone \<^verbatim>\<open>0\<close>, no \<^verbatim>\<open>x\<close> or \<^verbatim>\<open>X\<close>
  (which would make a hexadecimal prefix).
\<close>

definition endsNumeral :: "nat \<Rightarrow> jsstring \<Rightarrow> bool" where
  "endsNumeral n rest =
     (case rest of
        [] \<Rightarrow> True
      | c # cs \<Rightarrow> \<not> isDecimalDigit c \<and> \<not> (n = 0 \<and> (c = 120 \<or> c = 88)))"

text \<open>The fields of a record other than the identifier and the timestamp.\<close>

definition contentOf :: "trip \<Rightarrow> jsval \<times> jsval \<times> jsval \<times> jsval \<times> int \<times> int \<times> int" where
  "contentOf r = (date r, startPoint r, endPoint r, route r, toll r, fuel r, total r)"

text \<open>
  What every record built by the form or by an import satisfies: the four labels are
  truthy (a non-empty string, as a rule) and the total is the sum of toll and fuel.
\<close>

definition consistent :: "trip \<Rightarrow> bool" where
  "consistent r =
     (truthy (date r) \<and> truthy (startPoint r) \<and> truthy (endPoint r) \<and> truthy (route r)
      \<and> total r = toll r + fuel r)"

text \<open>Toll and fuel are below \<open>10^21\<close> in magnitude, where numbers print as plain digits.\<close>

definition plainAmounts :: "trip \<Rightarrow> bool" where
  "plainAmounts r = (\<bar>toll r\<bar> < 10 ^ 21 \<and> \<bar>fuel r\<bar> < 10 ^ 21)"

section \<open>Properties of the value model\<close>

lemma digits_not_Nil: "digits n \<noteq> []"
  by (subst digits.simps) simp

lemma digits_decimal: "c \<in> set (digits n) \<Longrightarrow> 48 \<le> c \<and> c \<le> 57"
proof (induction n arbitrary: c rule: digits.induct)
  case (1 n)
  show ?case
  proof (cases "n < 10")
    case True
    with "1.prems" show ?thesis by (subst (asm) digits.simps) simp
  next
    case False
    from "1.prems" have "c \<in> set (digits (n div 10)) \<or> c = 48 + n mod 10"
      using False by (subst (asm) digits.simps) auto
    then show ?thesis
    proof
      assume "c \<in> set (digits (n div 10))"
      with "1.IH" False show ?thesis by blast
    next
      assume "c = 48 + n mod 10"
      moreover have "n mod 10 < 10" by simp
      ultimately show ?thesis by linarith
    qed
  qed
qed

lemma decimal_isRadixDigit: "48 \<le> c \<and> c \<le> 57 \<Longrightarrow> isRadixDigit 10 c"
  by (auto simp: isRadixDigit_def digitValue_def)

lemma decimal_not_space: "48 \<le> c \<and> c \<le> 57 \<Longrightarrow> \<not> isWhiteSpace c"
  by (auto simp: isWhiteSpace_def)

lemma radixValue_snoc:
  "radixValue R (Z @ [c]) =
     (case digitValue c of None \<Rightarrow> radixValue R Z | Some d \<Rightarrow> radixValue R Z * R + d)"
  by (simp add: radixValue_def split: option.split)

text \<open>Reading the digits of a number gives the number back.\<close>

lemma radixValue_digits: "radixValue 10 (digits n) = n"
proof (induction n rule: digits.induct)
  case (1 n)
  show ?case
  proof (cases "n < 10")
    case True
    then show ?thesis by (subst digits.simps) (simp add: radixValue_def digitValue_def)
  next
    case False
    have dv: "digitValue (48 + n mod 10) = Some (n mod 10)"
      by (simp add: digitValue_def)
    have "radixValue 10 (digits n) = radixValue 10 (digits (n div 10)) * 10 + n mod 10"
      using False by (subst digits.simps) (simp add: radixValue_snoc dv)
    also have "\<dots> = n div 10 * 10 + n mod 10" using "1.IH" False by simp
    finally show ?thesis by simp
  qed
qed

lemma takeWhile_digits: "takeWhile (isRadixDigit 10) (digits n) = digits n"
  by (simp add: takeWhile_eq_all_conv decimal_isRadixDigit digits_decimal)

lemma dropWhile_digits: "dropWhile isWhiteSpace (digits n) = digits n"
proof (cases "digits n")
  case Nil
  then show ?thesis by simp
next
  case (Cons c cs)
  then have "c \<in> set (digits n)" by simp
  then have "\<not> isWhiteSpace c" using digits_decimal decimal_not_space by blast
  with Cons show ?thesis by simp
qed

lemma stripSign_digits: "stripSign (digits n) = (1, digits n)"
proof (cases "digits n")
  case Nil
  then show ?thesis by simp
next
  case (Cons c cs)
  then have "c \<in> set (digits n)" by simp
  then have "48 \<le> c \<and> c \<le> 57" using digits_decimal by blast
  with Cons show ?thesis by simp
qed

lemma stripPrefix_decimal:
  "(\<And>c. c \<in> set S \<Longrightarrow> 48 \<le> c \<and> c \<le> 57) \<Longrightarrow> stripPrefix S = (10, S)"
proof (cases S rule: stripPrefix.cases)
  case (1 a b cs)
  assume h: "\<And>c. c \<in> set S \<Longrightarrow> 48 \<le> c \<and> c \<le> 57"
  have "b \<in> set S" using 1 by simp
  then have "48 \<le> b \<and> b \<le> 57" using h by blast
  then have "b \<noteq> 120 \<and> b \<noteq> 88" by linarith
  with 1 show ?thesis by simp
qed simp_all

lemma stripPrefix_digits: "stripPrefix (digits n) = (10, digits n)"
  by (rule stripPrefix_decimal) (rule digits_decimal)

text \<open>\<^verbatim>\<open>parseInt\<close> of a number below \<open>10^21\<close> in magnitude is the number.\<close>

lemma parseInt_number: "\<bar>n\<bar> < 10 ^ 21 \<Longrightarrow> parseInt (JNum n) = Some n"
proof (cases "n < 0")
  case True
  assume b: "\<bar>n\<bar> < 10 ^ 21"
  have "\<not> isWhiteSpace 45" by (simp add: isWhiteSpace_def)
  moreover have "nat \<bar>n\<bar> < 10 ^ 21" using b by (simp add: nat_less_iff)
  ultimately show ?thesis using True
    by (simp add: parseInt_def numberToString_def Let_def stripPrefix_digits
      takeWhile_digits digits_not_Nil radixValue_digits)
next
  case False
  assume b: "\<bar>n\<bar> < 10 ^ 21"
  have "nat \<bar>n\<bar> < 10 ^ 21" using b by (simp add: nat_less_iff)
  then show ?thesis using False
    by (simp add: parseInt_def numberToString_def Let_def dropWhile_digits stripSign_digits
      stripPrefix_digits takeWhile_digits digits_not_Nil radixValue_digits)
qed

lemma isRadixDigit_10: "isRadixDigit 10 c \<longleftrightarrow> 48 \<le> c \<and> c \<le> 57"
  by (auto simp: isRadixDigit_def digitValue_def)

text \<open>A value with no leading digit parses to \<open>NaN\<close>, and so is coerced to 0.\<close>

lemma parseInt_no_leading_digit: "\<not> hasLeadingDigit v \<Longrightarrow> parseInt v = None"
proof (cases v)
  case JUndefined
  then show ?thesis
    by (simp add: parseInt_def ascii_def isWhiteSpace_def isRadixDigit_def digitValue_def)
next
  case JNull
  then show ?thesis
    by (simp add: parseInt_def ascii_def isWhiteSpace_def isRadixDigit_def digitValue_def)
next
  case (JBool b)
  then show ?thesis
    by (cases b) (simp_all add: parseInt_def ascii_def isWhiteSpace_def isRadixDigit_def digitValue_def)
next
  case (JNum n)
  assume "\<not> hasLeadingDigit v"
  with JNum show ?thesis by simp
next
  case (JStr s)
  assume nn: "\<not> hasLeadingDigit v"
  obtain sign S where ss: "stripSign (dropWhile isWhiteSpace s) = (sign, S)"
    by (cases "stripSign (dropWhile isWhiteSpace s)") auto
  show ?thesis
  proof (cases S)
    case Nil
    with JStr ss show ?thesis by (simp add: parseInt_def)
  next
    case (Cons c cs)
    with nn JStr ss have nd: "\<not> (48 \<le> c \<and> c \<le> 57)" by simp
    then have c0: "c \<noteq> 48" by auto
    have sp: "stripPrefix (c # cs) = (10, c # cs)"
      using c0 by (cases cs) simp_all
    have "takeWhile (isRadixDigit 10) (c # cs) = []"
      using nd by (simp add: isRadixDigit_10)
    with JStr ss Cons sp show ?thesis by (simp add: parseInt_def)
  qed
qed

lemma orZero_no_leading_digit: "\<not> hasLeadingDigit v \<Longrightarrow> orZero (parseInt v) = 0"
  by (simp add: parseInt_no_leading_digit orZero_def)

text \<open>Only a minus sign in front makes the parsed number negative.\<close>

lemma stripSign_sign:
  "stripSign S = (sign, S') \<Longrightarrow> (\<And>cs. S \<noteq> 45 # cs) \<Longrightarrow> sign = 1"
  by (cases S) (auto split: if_splits)

lemma parseInt_nonneg:
  assumes "\<And>cs. dropWhile isWhiteSpace (ToString v) \<noteq> 45 # cs"
  shows "0 \<le> orZero (parseInt v)"
proof -
  obtain sign S where ss: "stripSign (dropWhile isWhiteSpace (ToString v)) = (sign, S)"
    by (cases "stripSign (dropWhile isWhiteSpace (ToString v))") auto
  then have "sign = 1" using assms by (rule stripSign_sign)
  with ss show ?thesis
    by (simp add: parseInt_def orZero_def Let_def split: prod.split)
qed

lemma digits_hd: "\<exists>c cs. digits m = c # cs \<and> 48 \<le> c \<and> c \<le> 57"
proof (cases "digits m")
  case Nil
  then show ?thesis using digits_not_Nil by blast
next
  case (Cons c cs)
  then have "c \<in> set (digits m)" by simp
  then show ?thesis using Cons digits_decimal by blast
qed

lemma exponential_hd: "\<exists>c cs. exponential m = c # cs \<and> 48 \<le> c \<and> c \<le> 101"
proof (cases "rev (dropWhile (\<lambda>c. c = 48) (rev (digits m)))")
  case Nil
  show ?thesis unfolding exponential_def Let_def Nil by simp
next
  case (Cons c cs)
  then have "c \<in> set (rev (dropWhile (\<lambda>c. c = 48) (rev (digits m))))" by simp
  then have "c \<in> set (digits m)" using set_dropWhileD by fastforce
  then have "48 \<le> c \<and> c \<le> 57" by (rule digits_decimal)
  then show ?thesis unfolding exponential_def Let_def Cons by simp
qed

lemma no_minus_start:
  assumes "\<not> hasMinusSign v"
  shows "dropWhile isWhiteSpace (ToString v) \<noteq> 45 # cs"
proof (cases v)
  case JUndefined
  then show ?thesis by (simp add: ascii_def isWhiteSpace_def)
next
  case JNull
  then show ?thesis by (simp add: ascii_def isWhiteSpace_def)
next
  case (JBool b)
  then show ?thesis by (cases b) (simp_all add: ascii_def isWhiteSpace_def)
next
  case (JNum n)
  with assms have n0: "\<not> n < 0" by simp
  obtain c ds where h: "numberToString n = c # ds" "48 \<le> c" "c \<le> 101"
  proof (cases "nat \<bar>n\<bar> < 10 ^ 21")
    case True
    obtain c ds where "digits (nat \<bar>n\<bar>) = c # ds \<and> 48 \<le> c \<and> c \<le> 57"
      using digits_hd by blast
    then show ?thesis using that True n0 by (simp add: numberToString_def Let_def)
  next
    case False
    obtain c ds where "exponential (nat \<bar>n\<bar>) = c # ds \<and> 48 \<le> c \<and> c \<le> 101"
      using exponential_hd by blast
    then show ?thesis using that False n0 by (simp add: numberToString_def Let_def)
  qed
  have "\<not> isWhiteSpace c" using h by (simp add: isWhiteSpace_def)
  with h JNum show ?thesis by simp
next
  case (JStr s)
  show ?thesis
  proof
    assume "dropWhile isWhiteSpace (ToString v) = 45 # cs"
    then have "hasMinusSign v" using JStr by simp
    with assms show False by simp
  qed
qed

lemma orZero_no_minus: "\<not> hasMinusSign v \<Longrightarrow> 0 \<le> orZero (parseInt v)"
  by (rule parseInt_nonneg) (rule no_minus_start)

lemma digits_single: "n < 10 \<Longrightarrow> digits n = [48 + n]"
  by (subst digits.simps) simp

lemma digits_length2: "\<not> n < 10 \<Longrightarrow> \<exists>a b cs. digits n = a # b # cs"
proof -
  assume h: "\<not> n < 10"
  obtain c cs where "digits (n div 10) = c # cs"
    using digits_not_Nil by (cases "digits (n div 10)") auto
  then have "digits n = c # cs @ [48 + n mod 10]"
    using h by (subst digits.simps) simp
  then show ?thesis by (cases cs) auto
qed

lemma stripPrefix_numeral:
  assumes "endsNumeral n rest"
  shows "stripPrefix (digits n @ rest) = (10, digits n @ rest)"
proof (cases "n < 10")
  case True
  then have d: "digits n = [48 + n]" by (rule digits_single)
  show ?thesis
  proof (cases rest)
    case Nil
    with d show ?thesis by simp
  next
    case (Cons c cs)
    with assms have "\<not> (n = 0 \<and> (c = 120 \<or> c = 88))" by (simp add: endsNumeral_def)
    with d Cons show ?thesis by auto
  qed
next
  case False
  then obtain a b cs where d: "digits n = a # b # cs" using digits_length2 by blast
  then have "b \<in> set (digits n)" by simp
  then have "48 \<le> b \<and> b \<le> 57" by (rule digits_decimal)
  then have "b \<noteq> 120 \<and> b \<noteq> 88" by linarith
  with d show ?thesis by simp
qed

lemma takeWhile_numeral:
  assumes "endsNumeral n rest"
  shows "takeWhile (isRadixDigit 10) (digits n @ rest) = digits n"
proof -
  have a: "\<And>c. c \<in> set (digits n) \<Longrightarrow> isRadixDigit 10 c"
    using digits_decimal decimal_isRadixDigit by blast
  have b: "takeWhile (isRadixDigit 10) rest = []"
    using assms by (cases rest) (simp_all add: endsNumeral_def isDecimalDigit_def isRadixDigit_10)
  show ?thesis using a b by (simp add: takeWhile_append2)
qed

text \<open>
  A text that begins, after white space, with the decimal numeral of \<open>n\<close> parses to
  \<open>n\<close>, whatever follows the numeral.
\<close>

lemma parseInt_leading_numeral:
  assumes "list_all isWhiteSpace ws" and "endsNumeral n rest"
  shows "parseInt (JStr (ws @ digits n @ rest)) = Some (int n)"
proof -
  obtain c cs where d: "digits n = c # cs" "48 \<le> c \<and> c \<le> 57"
    using digits_hd by blast
  then have nw: "\<not> isWhiteSpace c" by (simp add: decimal_not_space)
  have "dropWhile isWhiteSpace (ws @ digits n @ rest) = dropWhile isWhiteSpace (digits n @ rest)"
    using assms(1) by (simp add: dropWhile_append2 list_all_iff)
  also have "\<dots> = digits n @ rest" using d nw by simp
  finally have dw: "dropWhile isWhiteSpace (ws @ digits n @ rest) = digits n @ rest" .
  have ss: "stripSign (digits n @ rest) = (1, digits n @ rest)"
    using d by simp
  show ?thesis
    by (simp add: parseInt_def dw ss stripPrefix_numeral [OF assms(2)]
        takeWhile_numeral [OF assms(2)] digits_not_Nil radixValue_digits)
qed

lemma orZero_leading_numeral:
  "list_all isWhiteSpace ws \<Longrightarrow> endsNumeral n rest \<Longrightarrow>
   orZero (parseInt (JStr (ws @ digits n @ rest))) = int n"
  by (simp add: parseInt_leading_numeral orZero_def)

text \<open>The decimal numeral of a number is numeric.\<close>

lemma isNumeric_digits: "isNumeric (JStr (digits n))"
proof -
  obtain c cs where d: "digits n = c # cs" "48 \<le> c \<and> c \<le> 57"
    using digits_hd by blast
  have all: "\<And>x. x \<in> set (digits n) \<Longrightarrow> isDecimalDigit x"
    using digits_decimal by (simp add: isDecimalDigit_def)
  have nws: "\<And>x. x \<in> set (digits n) \<Longrightarrow> \<not> isWhiteSpace x"
    using digits_decimal decimal_not_space by blast
  have "last (digits n) \<in> set (digits n)" using digits_not_Nil by simp
  then have l: "\<not> isWhiteSpace (last (digits n))" using nws by blast
  have "dropWhile isWhiteSpace (rev (digits n)) = rev (digits n)"
    using l by (simp add: dropWhile_eq_self_iff hd_rev)
  then have t: "trim (digits n) = digits n"
    by (simp add: trim_def dropWhile_digits)
  have c: "c \<noteq> 43 \<and> c \<noteq> 45" using d by linarith
  have tw: "takeWhile isDecimalDigit (digits n) = digits n"
    using all by (simp add: takeWhile_eq_all_conv)
  have dw: "dropWhile isDecimalDigit (digits n) = []"
    using all by simp
  have u: "(case digits n of [] \<Rightarrow> [] | c # cs \<Rightarrow> if c = 43 \<or> c = 45 then cs else c # cs)
      = digits n"
    using d c by simp
  show ?thesis by (simp add: t u tw dw digits_not_Nil)
qed

lemma digits_examples: "digits 12000 = ascii ''12000''" "digits 12 = ascii ''12''"
  "digits 2023 = ascii ''2023''"
  by (simp_all add: digits.simps ascii_def)

text \<open>The simulated toll lies between 1000 and 5999.\<close>

lemma simulateTollFee_range:
  assumes "0 \<le> u" and "u < 1"
  shows "1000 \<le> simulateTollFee u \<and> simulateTollFee u \<le> 5999"
proof -
  have "0 \<le> u * 5000" using assms by simp
  then have lo: "0 \<le> \<lfloor>u * 5000\<rfloor>" by simp
  have "u * 5000 < 5000" using assms by simp
  then have "\<lfloor>u * 5000\<rfloor> < 5000" by (simp add: floor_less_iff)
  with lo show ?thesis by (simp add: simulateTollFee_def)
qed

lemma orElse_truthy: "truthy a \<Longrightarrow> orElse a b = a"
  by (simp add: orElse_def)

lemma orZero_parseInt_number: "\<bar>n\<bar> < 10 ^ 21 \<Longrightarrow> orZero (parseInt (JNum n)) = n"
  by (simp add: parseInt_number orZero_def)

section \<open>Properties of the view functions\<close>

lemma updateRecordsList_fields [simp]:
  "records (updateRecordsList st) = records st"
  "filteredRecords (updateRecordsList st) = filteredRecords st"
  "totalCost (updateRecordsList st) = totalCost st"
  "currentPage (updateRecordsList st) = currentPage st"
  by (simp_all add: updateRecordsList_def Let_def)

lemma updatePagination_fields [simp]:
  "records (updatePagination st) = records st"
  "filteredRecords (updatePagination st) = filteredRecords st"
  "totalCost (updatePagination st) = totalCost st"
  "currentPage (updatePagination st) = currentPage st"
  "recordsShown (updatePagination st) = recordsShown st"
  by (simp_all add: updatePagination_def Let_def)

lemma updateUI_fields [simp]:
  "records (updateUI st) = records st"
  "filteredRecords (updateUI st) = filteredRecords st"
  "totalCost (updateUI st) = totalCost st"
  "currentPage (updateUI st) = currentPage st"
  by (simp_all add: updateUI_def updateExportButton_def updateTotalCost_def)

lemma ceiling_of_int_div: "\<lceil>(of_int a :: rat) / of_int b\<rceil> = - ((- a) div b)"
proof -
  have "\<lceil>(of_int a :: rat) / of_int b\<rceil> = - \<lfloor>(of_int (- a) :: rat) / of_int b\<rfloor>"
    by (simp add: ceiling_def)
  also have "\<dots> = - ((- a) div b)"
    by (simp only: floor_divide_of_int_eq)
  finally show ?thesis .
qed

text \<open>The page count in integer arithmetic.\<close>

text \<open>The page count and the list in terms of the working list.\<close>

lemma getTotalPages_working:
  "getTotalPages st = \<lceil>(of_int (int (length (workingRecords st))) :: rat) / of_int recordsPerPage\<rceil>"
  by (simp add: getTotalPages_def workingRecords_def)

lemma updateRecordsList_working:
  "updateRecordsList st =
     (if workingRecords st = [] then st\<lparr>recordsShown := Notice\<rparr>
      else st\<lparr>recordsShown :=
        Items (slice (workingRecords st) ((currentPage st - 1) * recordsPerPage)
                 ((currentPage st - 1) * recordsPerPage + recordsPerPage))\<rparr>)"
  by (simp add: updateRecordsList_def workingRecords_def Let_def)

lemma getTotalPages_div:
  "getTotalPages st = (int (length (workingRecords st)) + 19) div 20"
proof -
  have "getTotalPages st = - ((- int (length (workingRecords st))) div 20)"
    unfolding getTotalPages_working recordsPerPage_def
    using ceiling_of_int_div [of "int (length (workingRecords st))" 20] by simp
  then show ?thesis by linarith
qed

lemma getTotalPages_unfiltered:
  "filteredRecords st = [] \<Longrightarrow> getTotalPages st = (int (length (records st)) + 19) div 20"
  by (simp add: getTotalPages_div workingRecords_def)

lemma slice_page:
  "0 \<le> a \<Longrightarrow> a \<le> b \<Longrightarrow> slice xs a b = take (nat (b - a)) (drop (nat a) xs)"
  by (simp add: slice_def Let_def min_def)

lemma addRecord_currentPage [simp]: "currentPage (addRecord r st) = currentPage st"
  by (simp add: addRecord_def)

lemma importRows_currentPage [simp]:
  "currentPage (importRows ds k rows st) = currentPage st"
  by (induction rows arbitrary: k st) (simp_all add: Let_def)

lemma importRows_filteredRecords [simp]:
  "filteredRecords (importRows ds k rows st) = filteredRecords st"
  by (induction rows arbitrary: k st) (simp_all add: Let_def)

lemma importRows_length:
  "length (records (importRows ds k rows st)) = length (records st) + length rows"
  by (induction rows arbitrary: k st) (simp_all add: Let_def)

lemma handleUpload_length:
  "length (records (handleUpload ds (Some rows) st)) = length (records st) + length rows"
  by (simp add: handleUpload_def importRows_length)

lemma handleUpload_filteredRecords [simp]:
  "filteredRecords (handleUpload ds sheet st) = filteredRecords st"
  by (simp add: handleUpload_def split: option.split)

lemma handleUpload_currentPage [simp]:
  "currentPage (handleUpload ds sheet st) = currentPage st"
  by (simp add: handleUpload_def split: option.split)

lemma workingRecords_currentPage:
  "workingRecords (st\<lparr>currentPage := p\<rparr>) = workingRecords st"
  by (simp add: workingRecords_def)

text \<open>What the list shows on a page from 1 on, when there is a record to show.\<close>

lemma updateRecordsList_shown:
  "workingRecords st \<noteq> [] \<Longrightarrow> 1 \<le> currentPage st \<Longrightarrow>
   recordsShown (updateRecordsList st)
     = Items (take 20 (drop (nat (20 * (currentPage st - 1))) (workingRecords st)))"
  by (simp add: updateRecordsList_working recordsPerPage_def slice_page mult.commute)

lemma changePage_fields [simp]:
  "records (changePage direction st) = records st"
  "filteredRecords (changePage direction st) = filteredRecords st"
  "totalCost (changePage direction st) = totalCost st"
  by (simp_all add: changePage_def Let_def)

lemma changePage_currentPage:
  "currentPage (changePage direction st)
     = (if 1 \<le> currentPage st + direction \<and> currentPage st + direction \<le> getTotalPages st
        then currentPage st + direction else currentPage st)"
  by (simp add: changePage_def Let_def)

lemma getTotalPages_changePage [simp]:
  "getTotalPages (changePage direction st) = getTotalPages st"
  by (simp add: getTotalPages_def workingRecords_def)

lemma filterRecords_none:
  "(\<And>r. r \<in> set rs \<Longrightarrow> p r = Some False) \<Longrightarrow> filterRecords p rs = Some []"
  by (induction rs) simp_all

text \<open>The sort permutes its argument.\<close>

lemma mset_insertSorted: "mset (insertSorted cmp x xs) = {#x#} + mset xs"
  by (induction xs) auto

lemma mset_sortBy: "mset (sortBy cmp xs) = mset xs"
  unfolding sortBy_def by (induction xs) (auto simp: mset_insertSorted)

text \<open>
  For a comparison by the difference of a key, the sort is the library's stable insertion
  sort by that key: the result is sorted by the key, and records with equal keys keep
  their order. The four directives of \<^verbatim>\<open>handleSort\<close> are of this kind; any other
  value of the selector leaves the list as it is.
\<close>

lemma insertSorted_key:
  "insertSorted (\<lambda>a b. f a - f b) x xs = insort_key f x xs" for f :: "'a \<Rightarrow> int"
  by (induction xs) simp_all

lemma sortBy_key: "sortBy (\<lambda>a b. f a - f b) xs = sort_key f xs" for f :: "'a \<Rightarrow> int"
  unfolding sortBy_def sort_key_def by (induction xs) (simp_all add: insertSorted_key)

lemma sortBy_unordered: "sortBy (\<lambda>a b. 0) xs = xs"
  using sortBy_key [of "\<lambda>a. 0" xs] by (simp add: sort_key_const)

lemma compareFn_keys:
  "compareFn (ascii ''date-desc'') = (\<lambda>a b. (- timestamp a) - (- timestamp b))"
  "compareFn (ascii ''date-asc'') = (\<lambda>a b. timestamp a - timestamp b)"
  "compareFn (ascii ''cost-desc'') = (\<lambda>a b. (- total a) - (- total b))"
  "compareFn (ascii ''cost-asc'') = (\<lambda>a b. total a - total b)"
  by (auto simp: compareFn_def ascii_def fun_eq_iff)

lemma sortBy_compareFn:
  "sortBy (compareFn (ascii ''date-desc'')) xs = sort_key (\<lambda>r. - timestamp r) xs"
  "sortBy (compareFn (ascii ''date-asc'')) xs = sort_key timestamp xs"
  "sortBy (compareFn (ascii ''cost-desc'')) xs = sort_key (\<lambda>r. - total r) xs"
  "sortBy (compareFn (ascii ''cost-asc'')) xs = sort_key total xs"
  unfolding compareFn_keys by (rule sortBy_key)+

lemma sortBy_other:
  "sortValue \<notin> {ascii ''date-desc'', ascii ''date-asc'', ascii ''cost-desc'', ascii ''cost-asc''}
   \<Longrightarrow> sortBy (compareFn sortValue) xs = xs"
proof -
  assume "sortValue \<notin> {ascii ''date-desc'', ascii ''date-asc'', ascii ''cost-desc'', ascii ''cost-asc''}"
  then have "compareFn sortValue = (\<lambda>a b. 0)"
    by (auto simp: compareFn_def fun_eq_iff)
  then show ?thesis by (simp add: sortBy_unordered)
qed

lemma sortBy_key_sorted: "sorted (map f (sortBy (\<lambda>a b. f a - f b) xs))"
  for f :: "'a \<Rightarrow> int"
  by (simp add: sortBy_key)

lemma sortBy_key_stable:
  "filter (\<lambda>y. f y = k) (sortBy (\<lambda>a b. f a - f b) xs) = filter (\<lambda>y. f y = k) xs"
  for f :: "'a \<Rightarrow> int"
  by (simp add: sortBy_key sort_key_stable)

text \<open>The import loop appends the imported records and adds their totals.\<close>

lemma importRows_records:
  "records (importRows ds k rows st) = records st @ importedRecords ds k rows"
  by (induction rows arbitrary: k st) (simp_all add: Let_def)

lemma importRows_totalCost:
  "totalCost (importRows ds k rows st)
     = totalCost st + sum_list (map total (importedRecords ds k rows))"
  by (induction rows arbitrary: k st) (simp_all add: Let_def)

lemma handleUpload_records:
  "records (handleUpload ds (Some rows) st) = records st @ importedRecords ds 0 rows"
  by (simp add: handleUpload_def importRows_records)

lemmas key_defs =
  keyDate_def keyStartPoint_def keyEndPoint_def keyRoute_def keyToll_def keyFuel_def keyTotal_def

lemma keys_distinct:
  "distinct [keyDate, keyStartPoint, keyEndPoint, keyRoute, keyToll, keyFuel, keyTotal]"
  by (simp add: key_defs)

lemma column_exportRow:
  "column (exportRow r) keyDate = date r"
  "column (exportRow r) keyStartPoint = startPoint r"
  "column (exportRow r) keyEndPoint = endPoint r"
  "column (exportRow r) keyRoute = route r"
  "column (exportRow r) keyToll = JNum (toll r)"
  "column (exportRow r) keyFuel = JNum (fuel r)"
  using keys_distinct by (auto simp: column_def exportRow_def)

lemma column_total_ignored:
  "column ((keyTotal, x) # r) keyToll = column r keyToll"
  "column ((keyTotal, x) # r) keyFuel = column r keyFuel"
  using keys_distinct by (auto simp: column_def)

lemma fuel_import_export:
  "fuel (importRecord d k (exportRow r)) = orZero (parseInt (JNum (fuel r)))"
  by (simp add: importRecord_def column_exportRow)

text \<open>
  Every record that a valid form submission or an import builds is consistent, the
  date of the day being a non-empty string.
\<close>

lemma formRecord_consistent:
  "validateForm sp ep \<Longrightarrow> today d \<noteq> [] \<Longrightarrow> consistent (formRecord d u sp ep fc)"
  by (simp add: validateForm_def formRecord_def consistent_def Let_def split: if_splits)

lemma importRecord_consistent:
  "today d \<noteq> [] \<Longrightarrow> consistent (importRecord d k r)"
  by (simp add: importRecord_def consistent_def orElse_def arrow_def unknownLabel_def)

lemma sample_consistent:
  "consistent cheapTrip" "plainAmounts cheapTrip" "consistent dearTrip" "plainAmounts dearTrip"
  by (simp_all add: consistent_def plainAmounts_def cheapTrip_def dearTrip_def ascii_def arrow_def)

text \<open>Importing the exported row of a consistent record with plain amounts.\<close>

lemma import_export_content:
  assumes "consistent r" and "plainAmounts r"
  shows "contentOf (importRecord d k (exportRow r)) = contentOf r"
  using assms
  by (simp add: contentOf_def importRecord_def column_exportRow consistent_def plainAmounts_def
      orElse_truthy orZero_parseInt_number)

lemma importedRecords_export:
  "\<forall>r \<in> set rs. consistent r \<and> plainAmounts r \<Longrightarrow>
   map contentOf (importedRecords ds k (map exportRow rs)) = map contentOf rs"
  by (induction rs arbitrary: k) (simp_all add: import_export_content)

lemma getMember_not_null: "data \<noteq> JsonNull \<Longrightarrow> \<exists>m. getMember data k = Inr m"
  by (cases data) simp_all

text \<open>A search with a term that no record matches: what the handler does.\<close>

lemma handleSearch_no_match:
  assumes "trim (lower searchInputValue) \<noteq> []"
    and "\<forall>r \<in> set (records st). matches lower (trim (lower searchInputValue)) r = Some False"
  shows "handleSearch lower searchInputValue st
      = (Normal, updatePagination (updateRecordsList
           (st\<lparr>filteredRecords := [], currentPage := 1\<rparr>)))"
proof -
  have "filterRecords (matches lower (trim (lower searchInputValue))) (records st) = Some []"
    using assms(2) by (intro filterRecords_none) simp
  then show ?thesis using assms(1) by (simp add: handleSearch_def Let_def)
qed

lemma unfiltered_first_page:
  "recordsShown (updateRecordsList (st\<lparr>filteredRecords := [], currentPage := 1\<rparr>))
     = (if records st = [] then Notice else Items (take 20 (records st)))"
proof (cases "records st = []")
  case True
  then show ?thesis by (simp add: updateRecordsList_def workingRecords_def Let_def)
next
  case False
  have w: "workingRecords (st\<lparr>filteredRecords := [], currentPage := 1\<rparr>) = records st"
    by (simp add: workingRecords_def)
  show ?thesis
    using False updateRecordsList_shown [of "st\<lparr>filteredRecords := [], currentPage := 1\<rparr>"]
    by (simp add: w)
qed

lemma importedRecords_replicate:
  "r \<in> set (importedRecords ds j (replicate n blank)) \<Longrightarrow>
   \<exists>k. r = importRecord (ds k) (int k) blank"
  by (induction n arbitrary: j) auto

lemma matches_blank_row:
  "matches toLowerAscii (ascii ''zzz'') (importRecord sampleDraws k []) = Some False"
  by (simp add: matches_def importRecord_def column_def orElse_def unknownLabel_def arrow_def
      sampleDraws_def toLowerAscii_def ascii_def)

section \<open>The record a form submission produces\<close>

text \<open>
  C1. When the form is valid (origin and destination non-empty after trimming), the
  submission puts one new record at the front of the ledger. Its origin and destination
  are the trimmed field values, its route is origin, arrow, destination, its toll is
  the simulated fee, its fuel is the parsed fuel field, and its total is toll plus fuel.
\<close>

theorem handleFormSubmit_record:
  assumes "validateForm startPointValue endPointValue"
  shows "\<exists>r. records (handleFormSubmit d u startPointValue endPointValue fuelCostValue st)
               = r # records st
           \<and> total r = toll r + fuel r
           \<and> startPoint r = JStr (trim startPointValue)
           \<and> endPoint r = JStr (trim endPointValue)
           \<and> route r = JStr (trim startPointValue @ arrow @ trim endPointValue)
           \<and> toll r = simulateTollFee u
           \<and> fuel r = orZero (parseInt (JStr fuelCostValue))"
  using assms
  by (simp add: handleFormSubmit_def addRecord_def formRecord_def Let_def)

text \<open>
  The theorem on the origin \<^verbatim>\<open>" Seoul "\<close>, the destination \<^verbatim>\<open>"Busan"\<close>, the fuel
  text \<^verbatim>\<open>"30000"\<close> and the toll draw 1/4, submitted to the empty ledger.
\<close>

theorem handleFormSubmit_record_witness:
  "validateForm (ascii '' Seoul '') (ascii ''Busan'')
   \<and> records (handleFormSubmit sampleDraws (1 / 4) (ascii '' Seoul '') (ascii ''Busan'')
        (ascii ''30000'') emptyState)
     = [\<lparr>ident = 1700000000000 + 1 / 2, date = JStr (ascii ''2023. 11. 15.''),
         route = JStr (ascii ''Seoul'' @ arrow @ ascii ''Busan''),
         startPoint = JStr (ascii ''Seoul''), endPoint = JStr (ascii ''Busan''),
         toll = 2250, fuel = 30000, total = 32250, timestamp = 1700000000000\<rparr>]"
proof -
  have v: "validateForm (ascii '' Seoul '') (ascii ''Busan'')"
    by (simp add: validateForm_def trim_def ascii_def isWhiteSpace_def)
  have t: "trim (ascii '' Seoul '') = ascii ''Seoul''" "trim (ascii ''Busan'') = ascii ''Busan''"
    by (simp_all add: trim_def ascii_def isWhiteSpace_def)
  have f: "orZero (parseInt (JStr (ascii ''30000''))) = 30000"
    by (simp add: orZero_def parseInt_def ascii_def isWhiteSpace_def isRadixDigit_def
        digitValue_def radixValue_def)
  have s: "simulateTollFee (1 / 4) = 2250"
    by (simp add: simulateTollFee_def)
  have e: "records emptyState = []" by (simp add: emptyState_def)
  have d: "now sampleDraws = 1700000000000" "rand sampleDraws = 1 / 2"
    "today sampleDraws = ascii ''2023. 11. 15.''"
    by (simp_all add: sampleDraws_def)
  have r: "formRecord sampleDraws (1 / 4) (ascii '' Seoul '') (ascii ''Busan'') (ascii ''30000'')
     = \<lparr>ident = 1700000000000 + 1 / 2, date = JStr (ascii ''2023. 11. 15.''),
         route = JStr (ascii ''Seoul'' @ arrow @ ascii ''Busan''),
         startPoint = JStr (ascii ''Seoul''), endPoint = JStr (ascii ''Busan''),
         toll = 2250, fuel = 30000, total = 32250, timestamp = 1700000000000\<rparr>"
    by (simp add: formRecord_def Let_def t f s d)
  from handleFormSubmit_record [OF v, of sampleDraws "1 / 4" "ascii ''30000''" emptyState]
  obtain r where "records (handleFormSubmit sampleDraws (1 / 4) (ascii '' Seoul '') (ascii ''Busan'')
        (ascii ''30000'') emptyState) = r # records emptyState"
    by blast
  moreover have "records (handleFormSubmit sampleDraws (1 / 4) (ascii '' Seoul '') (ascii ''Busan'')
        (ascii ''30000'') emptyState)
      = formRecord sampleDraws (1 / 4) (ascii '' Seoul '') (ascii ''Busan'') (ascii ''30000'')
        # records emptyState"
    using v by (simp add: handleFormSubmit_def addRecord_def)
  ultimately show ?thesis using v by (simp add: r e)
qed

section \<open>The page count\<close>

text \<open>
  C2, as the code has it. The page count is the ceiling of the size of the working list
  over the page size 20, where the working list is the filtered list when that is not
  empty and the whole ledger otherwise. When the working list is empty the page count is
  0 and the list shows the notice for an empty ledger, no record; when it is not empty
  the page count \<open>n\<close> is at least 1 and is the one number with
  \<open>20 * (n - 1) < size \<le> 20 * n\<close>.
\<close>

theorem getTotalPages_ceiling:
  "getTotalPages st = (int (length (workingRecords st)) + 19) div 20
   \<and> workingRecords st = (if filteredRecords st = [] then records st else filteredRecords st)
   \<and> (workingRecords st = [] \<longrightarrow>
        getTotalPages st = 0 \<and> recordsShown (updateRecordsList st) = Notice)
   \<and> (workingRecords st \<noteq> [] \<longrightarrow>
        1 \<le> getTotalPages st
        \<and> 20 * (getTotalPages st - 1) < int (length (workingRecords st))
        \<and> int (length (workingRecords st)) \<le> 20 * getTotalPages st)"
proof -
  have d: "getTotalPages st = (int (length (workingRecords st)) + 19) div 20"
    by (rule getTotalPages_div)
  have w: "workingRecords st = (if filteredRecords st = [] then records st else filteredRecords st)"
    by (simp add: workingRecords_def)
  have e: "workingRecords st = [] \<longrightarrow>
        getTotalPages st = 0 \<and> recordsShown (updateRecordsList st) = Notice"
    by (simp add: d updateRecordsList_working)
  have n: "workingRecords st \<noteq> [] \<longrightarrow>
        1 \<le> getTotalPages st
        \<and> 20 * (getTotalPages st - 1) < int (length (workingRecords st))
        \<and> int (length (workingRecords st)) \<le> 20 * getTotalPages st"
  proof
    assume "workingRecords st \<noteq> []"
    then have "0 < int (length (workingRecords st))" by simp
    then show "1 \<le> getTotalPages st
        \<and> 20 * (getTotalPages st - 1) < int (length (workingRecords st))
        \<and> int (length (workingRecords st)) \<le> 20 * getTotalPages st"
      unfolding d by presburger
  qed
  from d w e n show ?thesis by blast
qed

text \<open>
  The theorem on the empty ledger and on a ledger of 21 imported records, which
  needs two pages.
\<close>

theorem getTotalPages_ceiling_witness:
  "workingRecords emptyState = []
   \<and> getTotalPages emptyState = 0
   \<and> recordsShown (updateRecordsList emptyState) = Notice
   \<and> workingRecords (handleUpload steadyDraws (Some (replicate 21 [])) emptyState) \<noteq> []
   \<and> getTotalPages (handleUpload steadyDraws (Some (replicate 21 [])) emptyState) = 2"
proof -
  let ?st = "handleUpload steadyDraws (Some (replicate 21 [])) emptyState"
  have e: "workingRecords emptyState = []"
    by (simp add: workingRecords_def emptyState_def)
  have l: "length (workingRecords ?st) = 21"
    by (simp add: workingRecords_def handleUpload_length emptyState_def)
  then have n: "workingRecords ?st \<noteq> []" by auto
  from getTotalPages_ceiling [of emptyState] getTotalPages_ceiling [of ?st]
  show ?thesis using e n l by simp
qed

text \<open>
  The claim fails in two places. On the empty ledger the working list is empty and the
  page count is 0, not 1. On a ledger of 25 imported records, a search for \<^verbatim>\<open>zzz\<close>
  matches no record, so the set of matching records is empty; the page count is then 2
  and the list shows 20 records, where the claim has one page and an empty list.
\<close>

theorem getTotalPages_minimum_counterexample:
  "workingRecords emptyState = [] \<and> \<not> 1 \<le> getTotalPages emptyState
   \<and> length (records (handleUpload steadyDraws (Some (replicate 25 [])) emptyState)) = 25
   \<and> filterRecords (matches toLowerAscii (ascii ''zzz''))
        (records (handleUpload steadyDraws (Some (replicate 25 [])) emptyState)) = Some []
   \<and> getTotalPages (snd (handleSearch toLowerAscii (ascii ''zzz'')
        (handleUpload steadyDraws (Some (replicate 25 [])) emptyState))) = 2
   \<and> shownCount (recordsShown (snd (handleSearch toLowerAscii (ascii ''zzz'')
          (handleUpload steadyDraws (Some (replicate 25 [])) emptyState)))) = 20"
proof -
  let ?st = "handleUpload steadyDraws (Some (replicate 25 [])) emptyState"
  have e: "workingRecords emptyState = [] \<and> \<not> 1 \<le> getTotalPages emptyState"
    by (simp add: getTotalPages_div workingRecords_def emptyState_def)
  have l: "length (records ?st) = 25" by (simp add: handleUpload_length emptyState_def)
  then have ne: "records ?st \<noteq> []" by auto
  have t: "trim (toLowerAscii (ascii ''zzz'')) = ascii ''zzz''"
    by (simp add: trim_def toLowerAscii_def ascii_def isWhiteSpace_def)
  have tn: "trim (toLowerAscii (ascii ''zzz'')) \<noteq> []"
    unfolding t by (simp add: ascii_def)
  have m: "\<forall>r \<in> set (records ?st).
      matches toLowerAscii (trim (toLowerAscii (ascii ''zzz''))) r = Some False"
    unfolding t
  proof
    fix r assume "r \<in> set (records ?st)"
    then have "r \<in> set (importedRecords steadyDraws 0 (replicate 25 []))"
      by (simp add: handleUpload_records emptyState_def)
    then obtain k where "r = importRecord sampleDraws (int k) []"
      using importedRecords_replicate [of r steadyDraws 0 25 "[]"] by auto
    then show "matches toLowerAscii (ascii ''zzz'') r = Some False"
      by (simp add: matches_blank_row)
  qed
  have f: "filterRecords (matches toLowerAscii (ascii ''zzz'')) (records ?st) = Some []"
    using m unfolding t by (intro filterRecords_none) simp
  have h: "handleSearch toLowerAscii (ascii ''zzz'') ?st
      = (Normal, updatePagination (updateRecordsList
           (?st\<lparr>filteredRecords := [], currentPage := 1\<rparr>)))"
    by (rule handleSearch_no_match [OF tn m])
  have p: "getTotalPages (snd (handleSearch toLowerAscii (ascii ''zzz'') ?st)) = 2"
    unfolding h by (simp add: getTotalPages_unfiltered l del: handleUpload_length)
  have s: "recordsShown (snd (handleSearch toLowerAscii (ascii ''zzz'') ?st))
      = Items (take 20 (records ?st))"
    unfolding h using ne by (simp add: unfiltered_first_page)
  have "length (take 20 (records ?st)) = 20" by (simp add: l)
  with e l f p s show ?thesis by simp
qed

section \<open>The current page after an action\<close>

text \<open>
  C3, as the code has it. Adding a record (\<^verbatim>\<open>addRecord\<close>, and so a form submission)
  and importing a batch leave the current page number as it was. The actions that set
  it to 1 are the sort and a search that completes.
\<close>

theorem currentPage_after_actions:
  "currentPage (addRecord r st) = currentPage st
   \<and> currentPage (handleFormSubmit d u startPointValue endPointValue fuelCostValue st)
       = currentPage st
   \<and> currentPage (handleUpload ds sheet st) = currentPage st
   \<and> currentPage (handleSort sortValue st) = 1
   \<and> currentPage (snd (handleSearch lower searchInputValue st))
       = (if fst (handleSearch lower searchInputValue st) = Normal then 1 else currentPage st)"
proof -
  have f: "currentPage (handleFormSubmit d u startPointValue endPointValue fuelCostValue st)
      = currentPage st"
    by (simp add: handleFormSubmit_def)
  have s: "currentPage (handleSort sortValue st) = 1"
    by (simp add: handleSort_def Let_def)
  have h: "currentPage (snd (handleSearch lower searchInputValue st))
       = (if fst (handleSearch lower searchInputValue st) = Normal then 1 else currentPage st)"
    by (simp add: handleSearch_def Let_def split: option.split)
  from f s h show ?thesis by simp
qed

text \<open>
  The theorem on a ledger of 25 imported records that was moved to page 2: a sort
  brings it back to page 1, a further import leaves it on page 2.
\<close>

theorem currentPage_after_actions_witness:
  "currentPage (changePage 1
       (handleUpload steadyDraws (Some (replicate 25 [])) emptyState)) = 2
   \<and> currentPage (handleSort (ascii ''cost-desc'') (changePage 1
       (handleUpload steadyDraws (Some (replicate 25 [])) emptyState))) = 1
   \<and> currentPage (handleUpload steadyDraws (Some [[]]) (changePage 1
       (handleUpload steadyDraws (Some (replicate 25 [])) emptyState))) = 2"
proof -
  let ?st = "handleUpload steadyDraws (Some (replicate 25 [])) emptyState"
  have f: "filteredRecords ?st = []" by (simp add: emptyState_def)
  have l: "length (records ?st) = 25" by (simp add: handleUpload_length emptyState_def)
  have c: "currentPage emptyState = 1" by (simp add: emptyState_def)
  have t: "getTotalPages ?st = 2" by (simp add: getTotalPages_unfiltered [OF f] l)
  have p: "currentPage (changePage 1 ?st) = 2"
    by (simp add: changePage_def Let_def t c)
  from currentPage_after_actions [where st = "changePage 1 ?st"
      and ds = steadyDraws and sheet = "Some [[]]" and sortValue = "ascii ''cost-desc''"]
  show ?thesis using p by simp
qed

text \<open>
  A ledger of 25 imported records, moved to page 2: a valid form submission, which adds
  the 26th record, and a further import both leave it on page 2, where the claim says
  page 1.
\<close>

theorem add_keeps_page_counterexample:
  "currentPage (changePage 1
       (handleUpload steadyDraws (Some (replicate 25 [])) emptyState)) = 2
   \<and> currentPage (handleFormSubmit sampleDraws 0 (ascii ''A'') (ascii ''B'') (ascii ''0'')
        (changePage 1
          (handleUpload steadyDraws (Some (replicate 25 [])) emptyState))) = 2
   \<and> length (records
        (handleFormSubmit sampleDraws 0 (ascii ''A'') (ascii ''B'') (ascii ''0'')
          (changePage 1
            (handleUpload steadyDraws (Some (replicate 25 [])) emptyState)))) = 26
   \<and> currentPage (handleUpload steadyDraws (Some [[]])
        (changePage 1
          (handleUpload steadyDraws (Some (replicate 25 [])) emptyState))) = 2"
proof -
  let ?st = "handleUpload steadyDraws (Some (replicate 25 [])) emptyState"
  have f: "filteredRecords ?st = []" by (simp add: emptyState_def)
  have l: "length (records ?st) = 25" by (simp add: handleUpload_length emptyState_def)
  have c: "currentPage emptyState = 1" by (simp add: emptyState_def)
  have t: "getTotalPages ?st = 2" by (simp add: getTotalPages_unfiltered [OF f] l)
  have p: "currentPage (changePage 1 ?st) = 2"
    by (simp add: changePage_def Let_def t c)
  have v: "validateForm (ascii ''A'') (ascii ''B'')"
    by (simp add: validateForm_def trim_def ascii_def isWhiteSpace_def)
  show ?thesis by (simp add: p handleFormSubmit_def v addRecord_def l)
qed

section \<open>What the view actions leave alone\<close>

text \<open>
  C7, as the code has it. A search and a page change leave the ledger (its records and
  their order) and the total as they were. A sort leaves the total as it was and the
  ledger with the same records, each as often as before; the order stays when a filtered
  list is in place (the sort then reorders that list), and otherwise the ledger itself
  is replaced by its sorted copy.
\<close>

theorem view_actions_frame:
  "records (snd (handleSearch lower searchInputValue st)) = records st
   \<and> totalCost (snd (handleSearch lower searchInputValue st)) = totalCost st
   \<and> records (changePage direction st) = records st
   \<and> totalCost (changePage direction st) = totalCost st
   \<and> totalCost (handleSort sortValue st) = totalCost st
   \<and> mset (records (handleSort sortValue st)) = mset (records st)
   \<and> records (handleSort sortValue st)
       = (if filteredRecords st = [] then sortBy (compareFn sortValue) (records st)
          else records st)"
proof -
  have s: "records (snd (handleSearch lower searchInputValue st)) = records st
   \<and> totalCost (snd (handleSearch lower searchInputValue st)) = totalCost st"
    by (simp add: handleSearch_def Let_def split: option.split)
  have t: "totalCost (handleSort sortValue st) = totalCost st"
    by (simp add: handleSort_def Let_def)
  have r: "records (handleSort sortValue st)
       = (if filteredRecords st = [] then sortBy (compareFn sortValue) (records st)
          else records st)"
    by (simp add: handleSort_def Let_def workingRecords_def)
  have m: "mset (records (handleSort sortValue st)) = mset (records st)"
    by (simp add: r mset_sortBy)
  from s t r m show ?thesis by simp
qed

text \<open>
  The theorem on a ledger of two added records, the dear one first: sorting by rising
  cost turns the ledger round and keeps the total; a page change and a search keep the
  ledger.
\<close>

theorem view_actions_frame_witness:
  "records (handleSort (ascii ''cost-asc'') (addRecord dearTrip (addRecord cheapTrip emptyState)))
     = [cheapTrip, dearTrip]
   \<and> totalCost (handleSort (ascii ''cost-asc'')
        (addRecord dearTrip (addRecord cheapTrip emptyState))) = 26000
   \<and> records (changePage 1 (addRecord dearTrip (addRecord cheapTrip emptyState)))
     = [dearTrip, cheapTrip]
   \<and> records (snd (handleSearch toLowerAscii (ascii ''a'')
        (addRecord dearTrip (addRecord cheapTrip emptyState)))) = [dearTrip, cheapTrip]"
proof -
  let ?st = "addRecord dearTrip (addRecord cheapTrip emptyState)"
  have r: "records ?st = [dearTrip, cheapTrip]"
    by (simp add: addRecord_def emptyState_def)
  have f: "filteredRecords ?st = []"
    by (simp add: addRecord_def emptyState_def)
  have c: "totalCost ?st = 26000"
    by (simp add: addRecord_def emptyState_def cheapTrip_def dearTrip_def)
  have s: "sortBy (compareFn (ascii ''cost-asc'')) [dearTrip, cheapTrip] = [cheapTrip, dearTrip]"
    by (simp add: sortBy_def compareFn_def ascii_def cheapTrip_def dearTrip_def)
  from view_actions_frame [where st = ?st and sortValue = "ascii ''cost-asc''"
      and direction = 1 and lower = toLowerAscii and searchInputValue = "ascii ''a''"]
  show ?thesis by (simp add: r f c s)
qed

text \<open>
  The claim fails for the sort: on a ledger of two added records, the cheap one first,
  with no filter in place, sorting by falling cost changes the order of the ledger.
\<close>

theorem sort_reorders_counterexample:
  "records (addRecord cheapTrip (addRecord dearTrip emptyState)) = [cheapTrip, dearTrip]
   \<and> records (handleSort (ascii ''cost-desc'')
        (addRecord cheapTrip (addRecord dearTrip emptyState))) = [dearTrip, cheapTrip]
   \<and> [dearTrip, cheapTrip] \<noteq> [cheapTrip, dearTrip]"
  by (simp add: handleSort_def Let_def workingRecords_def addRecord_def emptyState_def
      sortBy_def compareFn_def ascii_def cheapTrip_def dearTrip_def)

section \<open>Pagination of 45 records\<close>



section \<open>A search that matches nothing\<close>

text \<open>
  C10. When the search term is not empty and no record of the ledger matches it, the
  search completes with an empty filtered list, and the list and the page count are
  those of the whole ledger: the list shows the first page of all records (the notice
  when the ledger is empty), and the page count is the ceiling of the size of the ledger
  over 20.
\<close>

theorem search_without_match:
  assumes "trim (lower searchInputValue) \<noteq> []"
    and "\<forall>r \<in> set (records st). matches lower (trim (lower searchInputValue)) r = Some False"
  shows "fst (handleSearch lower searchInputValue st) = Normal
    \<and> filteredRecords (snd (handleSearch lower searchInputValue st)) = []
    \<and> recordsShown (snd (handleSearch lower searchInputValue st))
        = (if records st = [] then Notice else Items (take 20 (records st)))
    \<and> getTotalPages (snd (handleSearch lower searchInputValue st))
        = (int (length (records st)) + 19) div 20"
  unfolding handleSearch_no_match [OF assms]
  by (simp add: unfiltered_first_page getTotalPages_unfiltered)

text \<open>
  The theorem on a ledger of two added records and the search text \<^verbatim>\<open>" Jeju"\<close>, which
  is in neither route and neither date: both records stay on show, on one page.
\<close>

theorem search_without_match_witness:
  "trim (toLowerAscii (ascii '' Jeju'')) = ascii ''jeju''
   \<and> fst (handleSearch toLowerAscii (ascii '' Jeju'')
        (addRecord dearTrip (addRecord cheapTrip emptyState))) = Normal
   \<and> filteredRecords (snd (handleSearch toLowerAscii (ascii '' Jeju'')
        (addRecord dearTrip (addRecord cheapTrip emptyState)))) = []
   \<and> recordsShown (snd (handleSearch toLowerAscii (ascii '' Jeju'')
        (addRecord dearTrip (addRecord cheapTrip emptyState)))) = Items [dearTrip, cheapTrip]
   \<and> getTotalPages (snd (handleSearch toLowerAscii (ascii '' Jeju'')
        (addRecord dearTrip (addRecord cheapTrip emptyState)))) = 1"
proof -
  let ?st = "addRecord dearTrip (addRecord cheapTrip emptyState)"
  have r: "records ?st = [dearTrip, cheapTrip]"
    by (simp add: addRecord_def emptyState_def)
  have t: "trim (toLowerAscii (ascii '' Jeju'')) = ascii ''jeju''"
    by (simp add: trim_def toLowerAscii_def ascii_def isWhiteSpace_def)
  have ne: "trim (toLowerAscii (ascii '' Jeju'')) \<noteq> []"
    unfolding t by (simp add: ascii_def)
  have m: "\<forall>r \<in> set (records ?st).
      matches toLowerAscii (trim (toLowerAscii (ascii '' Jeju''))) r = Some False"
    unfolding r t
    by (simp add: matches_def cheapTrip_def dearTrip_def toLowerAscii_def ascii_def arrow_def)
  from search_without_match [OF ne m]
  show ?thesis by (simp add: r t)
qed

section \<open>Export followed by import\<close>

text \<open>
  C4, as the code has it. Take a ledger whose records are consistent (truthy labels,
  total equal to toll plus fuel, as the form and the import build them) and have toll and
  fuel below \<open>10^21\<close> in magnitude. The rows that the export hands over, imported into
  any ledger, are appended there as records equal to the originals in date, origin,
  destination, route, toll, fuel and total.
\<close>

theorem export_import_roundtrip:
  assumes "\<forall>r \<in> set (records src). consistent r \<and> plainAmounts r"
    and "handleExport loaded src = Some rows"
  shows "\<exists>imported. records (handleUpload ds (Some rows) st) = records st @ imported
           \<and> map contentOf imported = map contentOf (records src)"
proof -
  have "rows = map exportRow (records src)"
    using assms(2) by (simp add: handleExport_def split: if_splits)
  then show ?thesis
    using importedRecords_export [OF assms(1)] by (simp add: handleUpload_records)
qed

text \<open>
  The theorem on a ledger of two added records, exported and imported into an empty
  ledger.
\<close>

theorem export_import_roundtrip_witness:
  "records (addRecord dearTrip (addRecord cheapTrip emptyState)) = [dearTrip, cheapTrip]
   \<and> handleExport True (addRecord dearTrip (addRecord cheapTrip emptyState))
       = Some [exportRow dearTrip, exportRow cheapTrip]
   \<and> map contentOf (records (handleUpload steadyDraws
         (handleExport True (addRecord dearTrip (addRecord cheapTrip emptyState))) emptyState))
       = [contentOf dearTrip, contentOf cheapTrip]"
proof -
  let ?src = "addRecord dearTrip (addRecord cheapTrip emptyState)"
  have r: "records ?src = [dearTrip, cheapTrip]"
    by (simp add: addRecord_def emptyState_def)
  have ok: "\<forall>r \<in> set (records ?src). consistent r \<and> plainAmounts r"
    by (simp add: r sample_consistent)
  have e: "handleExport True ?src = Some [exportRow dearTrip, exportRow cheapTrip]"
    by (simp add: handleExport_def r)
  have n: "records emptyState = []" by (simp add: emptyState_def)
  from export_import_roundtrip [OF ok e, of steadyDraws emptyState]
  show ?thesis by (auto simp add: r e n)
qed

text \<open>
  The claim fails for a large amount. Importing a row whose fuel cell is the text
  \<^verbatim>\<open>1000000000000000000000\<close> gives a record with fuel \<open>10^21\<close>; the export writes that
  number into the row, and the import reads it back with \<^verbatim>\<open>parseInt\<close>, which sees
  \<^verbatim>\<open>1e+21\<close> and gives 1.
\<close>

theorem large_amount_roundtrip_counterexample:
  "map fuel (records (handleUpload steadyDraws
      (Some [[(keyFuel, JStr (ascii ''1000000000000000000000''))]]) emptyState))
     = [1000000000000000000000]
   \<and> map fuel (records (handleUpload steadyDraws
        (handleExport True
          (handleUpload steadyDraws
            (Some [[(keyFuel, JStr (ascii ''1000000000000000000000''))]]) emptyState))
        emptyState))
     = [1]"
proof -
  let ?row = "[(keyFuel, JStr (ascii ''1000000000000000000000''))]"
  let ?big = "handleUpload steadyDraws (Some [?row]) emptyState"
  have p: "orZero (parseInt (JStr (ascii ''1000000000000000000000''))) = 1000000000000000000000"
    by (simp add: orZero_def parseInt_def ascii_def isWhiteSpace_def isRadixDigit_def
        digitValue_def radixValue_def)
  have q: "orZero (parseInt (JNum 1000000000000000000000)) = 1"
    by (simp add: orZero_def parseInt_def numberToString_def exponential_def Let_def digits.simps
        isWhiteSpace_def isRadixDigit_def digitValue_def radixValue_def)
  have f: "fuel (importRecord d k ?row) = 1000000000000000000000" for d k
    by (simp add: importRecord_def column_def p)
  have r: "records ?big = [importRecord sampleDraws 0 ?row]"
    by (simp add: handleUpload_records emptyState_def)
  have e: "handleExport True ?big = Some [exportRow (importRecord sampleDraws 0 ?row)]"
    by (simp add: handleExport_def r)
  have g: "fuel (importRecord d k (exportRow (importRecord sampleDraws 0 ?row))) = 1" for d k
    by (simp only: fuel_import_export f q)
  show ?thesis
    unfolding e by (simp add: r f g handleUpload_records emptyState_def)
qed

section \<open>Defaults of an imported row\<close>




section \<open>The outcome of loading\<close>

text \<open>
  What loading does with every stored payload. It never throws to the caller. When
  reading the storage throws, or the stored text is not valid JSON, or it parses to
  \<open>null\<close>, the ledger is empty and the total 0 afterwards. When nothing is stored (or the
  empty text), both fields stay as they are. Any other parsed value is assigned with no
  look at its shape: the ledger becomes its \<^verbatim>\<open>records\<close> member, or the empty list when
  that is missing or falsy, and the total its \<^verbatim>\<open>totalCost\<close> member, or 0 when that is
  missing or falsy.
\<close>

lemma loadFromLocalStorage_outcome:
  "loadFromLocalStorage parse got st \<noteq> Inl e
   \<and> (got = None
        \<or> (got = Some (Some saved) \<and> saved \<noteq> []
             \<and> (parse saved = None \<or> parse saved = Some JsonNull))
       \<longrightarrow> loadFromLocalStorage parse got st
             = Inr (st\<lparr>recordsField := JsonArr [], totalCostField := JsonNum 0\<rparr>))
   \<and> (got = Some None \<or> got = Some (Some []) \<longrightarrow> loadFromLocalStorage parse got st = Inr st)
   \<and> (got = Some (Some saved) \<and> saved \<noteq> [] \<and> parse saved = Some data \<and> data \<noteq> JsonNull
       \<longrightarrow> loadFromLocalStorage parse got st
             = Inr (st\<lparr>recordsField := orDefault (memberOf data (ascii ''records'')) (JsonArr []),
                      totalCostField :=
                        orDefault (memberOf data (ascii ''totalCost'')) (JsonNum 0)\<rparr>))"
proof -
  have a: "loadFromLocalStorage parse got st \<noteq> Inl e"
    by (simp add: loadFromLocalStorage_def split: sum.split)
  have b: "got = None
        \<or> (got = Some (Some saved) \<and> saved \<noteq> []
             \<and> (parse saved = None \<or> parse saved = Some JsonNull))
       \<longrightarrow> loadFromLocalStorage parse got st
             = Inr (st\<lparr>recordsField := JsonArr [], totalCostField := JsonNum 0\<rparr>)"
    by (auto simp: loadFromLocalStorage_def loadAttempt_def)
  have c: "got = Some None \<or> got = Some (Some []) \<longrightarrow> loadFromLocalStorage parse got st = Inr st"
    by (auto simp: loadFromLocalStorage_def loadAttempt_def)
  have d: "got = Some (Some saved) \<and> saved \<noteq> [] \<and> parse saved = Some data \<and> data \<noteq> JsonNull
       \<longrightarrow> loadFromLocalStorage parse got st
             = Inr (st\<lparr>recordsField := orDefault (memberOf data (ascii ''records'')) (JsonArr []),
                      totalCostField :=
                        orDefault (memberOf data (ascii ''totalCost'')) (JsonNum 0)\<rparr>)"
  proof
    assume h: "got = Some (Some saved) \<and> saved \<noteq> [] \<and> parse saved = Some data
          \<and> data \<noteq> JsonNull"
    obtain rs where rs: "getMember data (ascii ''records'') = Inr rs"
      using h getMember_not_null by blast
    obtain tc where tc: "getMember data (ascii ''totalCost'') = Inr tc"
      using h getMember_not_null by blast
    show "loadFromLocalStorage parse got st
             = Inr (st\<lparr>recordsField := orDefault (memberOf data (ascii ''records'')) (JsonArr []),
                      totalCostField :=
                        orDefault (memberOf data (ascii ''totalCost'')) (JsonNum 0)\<rparr>)"
      using h by (simp add: loadFromLocalStorage_def loadAttempt_def memberOf_def rs tc)
  qed
  from a b c d show ?thesis by blast
qed

text \<open>
  The same on a text that is not valid JSON, on a storage that throws, on an empty
  storage, and on the stored text of \<open>oddPayload\<close>.
\<close>

lemma loadFromLocalStorage_outcome_examples:
  "loadFromLocalStorage parseOdd (Some (Some (ascii ''{records:'')))
      \<lparr>recordsField = JsonArr [JsonNum 7], totalCostField = JsonNum 7\<rparr>
     = Inr \<lparr>recordsField = JsonArr [], totalCostField = JsonNum 0\<rparr>
   \<and> loadFromLocalStorage parseOdd None
      \<lparr>recordsField = JsonArr [JsonNum 7], totalCostField = JsonNum 7\<rparr>
     = Inr \<lparr>recordsField = JsonArr [], totalCostField = JsonNum 0\<rparr>
   \<and> loadFromLocalStorage parseOdd (Some None)
      \<lparr>recordsField = JsonArr [], totalCostField = JsonNum 0\<rparr>
     = Inr \<lparr>recordsField = JsonArr [], totalCostField = JsonNum 0\<rparr>
   \<and> loadFromLocalStorage parseOdd (Some (Some oddPayload))
      \<lparr>recordsField = JsonArr [], totalCostField = JsonNum 0\<rparr>
     = Inr \<lparr>recordsField = JsonStr (ascii ''oops''), totalCostField = JsonNum 5\<rparr>"
proof -
  let ?odd = "JsonObj [(ascii ''records'', JsonStr (ascii ''oops'')),
                       (ascii ''totalCost'', JsonNum 5)]"
  have n: "ascii ''{records:'' \<noteq> []" "oddPayload \<noteq> []"
    by (simp_all add: ascii_def oddPayload_def)
  have p: "parseOdd (ascii ''{records:'') = None"
    by (simp add: parseOdd_def oddPayload_def ascii_def)
  have q: "parseOdd oddPayload = Some ?odd"
    by (simp add: parseOdd_def)
  have m: "orDefault (memberOf ?odd (ascii ''records'')) (JsonArr []) = JsonStr (ascii ''oops'')"
    "orDefault (memberOf ?odd (ascii ''totalCost'')) (JsonNum 0) = JsonNum 5"
    by (simp_all add: orDefault_def memberOf_def ascii_def)
  from loadFromLocalStorage_outcome [of parseOdd "Some (Some (ascii ''{records:''))"
      "\<lparr>recordsField = JsonArr [JsonNum 7], totalCostField = JsonNum 7\<rparr>" _ "ascii ''{records:''"]
    loadFromLocalStorage_outcome [of parseOdd None
      "\<lparr>recordsField = JsonArr [JsonNum 7], totalCostField = JsonNum 7\<rparr>"]
    loadFromLocalStorage_outcome [of parseOdd "Some None"
      "\<lparr>recordsField = JsonArr [], totalCostField = JsonNum 0\<rparr>"]
    loadFromLocalStorage_outcome [of parseOdd "Some (Some oddPayload)"
      "\<lparr>recordsField = JsonArr [], totalCostField = JsonNum 0\<rparr>" _ oddPayload ?odd]
  show ?thesis using n p q m by simp
qed

text \<open>
  C6. A corrupted or invalid stored payload should load as an empty ledger with total 0.
  The function recovers in this way from a text that is not JSON and from \<open>null\<close>, and
  fills in a missing member, but it lets through a member of the wrong type: for the
  stored text of \<open>oddPayload\<close>, whose \<^verbatim>\<open>records\<close> member is a string, the ledger after
  loading is that string and the total is 5, neither an empty ledger nor 0.
\<close>

theorem misshapen_payload_load:
  "loadFromLocalStorage parseOdd (Some (Some oddPayload))
      \<lparr>recordsField = JsonArr [], totalCostField = JsonNum 0\<rparr>
     = Inr \<lparr>recordsField = JsonStr (ascii ''oops''), totalCostField = JsonNum 5\<rparr>
   \<and> JsonStr (ascii ''oops'') \<noteq> JsonArr [] \<and> JsonNum 5 \<noteq> JsonNum 0"
  by (simp add: loadFromLocalStorage_def loadAttempt_def parseOdd_def oddPayload_def
      orDefault_def ascii_def)

section \<open>The sign of toll and fuel\<close>

text \<open>
  C8, as the code has it. The toll of a form submission is between 1000 and 5999, for a
  random draw in \<open>[0, 1)\<close>. The fuel of a form submission, and the toll and the fuel of an
  imported row, are 0 when the input is missing or has no leading digit (it is no number,
  and no text that begins, after white space and one optional sign, with a decimal
  digit), and are not negative when the input carries no minus sign.
\<close>

theorem amounts_nonnegative:
  "(0 \<le> u \<and> u < 1 \<longrightarrow>
      1000 \<le> toll (formRecord d u sp ep fc) \<and> toll (formRecord d u sp ep fc) \<le> 5999)
   \<and> (\<not> hasMinusSign (JStr fc) \<longrightarrow> 0 \<le> fuel (formRecord d u sp ep fc))
   \<and> (\<not> hasLeadingDigit (JStr fc) \<longrightarrow> fuel (formRecord d u sp ep fc) = 0)
   \<and> (\<not> hasMinusSign (column r keyToll) \<longrightarrow> 0 \<le> toll (importRecord d k r))
   \<and> (\<not> hasMinusSign (column r keyFuel) \<longrightarrow> 0 \<le> fuel (importRecord d k r))
   \<and> (\<not> hasLeadingDigit (column r keyToll) \<longrightarrow> toll (importRecord d k r) = 0)
   \<and> (\<not> hasLeadingDigit (column r keyFuel) \<longrightarrow> fuel (importRecord d k r) = 0)"
proof -
  have a: "0 \<le> u \<and> u < 1 \<longrightarrow>
      1000 \<le> toll (formRecord d u sp ep fc) \<and> toll (formRecord d u sp ep fc) \<le> 5999"
    using simulateTollFee_range [of u] by (simp add: formRecord_def Let_def)
  have b: "\<not> hasMinusSign (JStr fc) \<longrightarrow> 0 \<le> fuel (formRecord d u sp ep fc)"
    using orZero_no_minus [of "JStr fc"] by (simp add: formRecord_def Let_def)
  have c: "\<not> hasLeadingDigit (JStr fc) \<longrightarrow> fuel (formRecord d u sp ep fc) = 0"
    using orZero_no_leading_digit [of "JStr fc"] by (simp add: formRecord_def Let_def)
  have e: "\<not> hasMinusSign (column r keyToll) \<longrightarrow> 0 \<le> toll (importRecord d k r)"
    by (simp add: importRecord_def orZero_no_minus)
  have f: "\<not> hasMinusSign (column r keyFuel) \<longrightarrow> 0 \<le> fuel (importRecord d k r)"
    by (simp add: importRecord_def orZero_no_minus)
  have g: "\<not> hasLeadingDigit (column r keyToll) \<longrightarrow> toll (importRecord d k r) = 0"
    by (simp add: importRecord_def orZero_no_leading_digit)
  have h: "\<not> hasLeadingDigit (column r keyFuel) \<longrightarrow> fuel (importRecord d k r) = 0"
    by (simp add: importRecord_def orZero_no_leading_digit)
  from a b c e f g h show ?thesis by blast
qed

text \<open>
  The theorem on a form submission with the fuel text \<^verbatim>\<open>abc\<close>, on a row with the
  toll 1500 and no fuel, and on a row with the toll \<^verbatim>\<open>abc\<close>.
\<close>

theorem amounts_nonnegative_witness:
  "toll (formRecord sampleDraws (1 / 4) (ascii ''A'') (ascii ''B'') (ascii ''abc'')) = 2250
   \<and> fuel (formRecord sampleDraws (1 / 4) (ascii ''A'') (ascii ''B'') (ascii ''abc'')) = 0
   \<and> toll (importRecord sampleDraws 0 [(keyToll, JNum 1500)]) = 1500
   \<and> fuel (importRecord sampleDraws 0 [(keyToll, JNum 1500)]) = 0
   \<and> toll (importRecord sampleDraws 0 [(keyToll, JStr (ascii ''abc''))]) = 0"
proof -
  let ?row = "[(keyToll, JNum 1500)]"
  let ?odd = "[(keyToll, JStr (ascii ''abc''))]"
  have k: "column ?row keyToll = JNum 1500" "column ?row keyFuel = JUndefined"
    "column ?odd keyToll = JStr (ascii ''abc'')"
    by (simp_all add: column_def key_defs)
  have n: "\<not> hasLeadingDigit (JStr (ascii ''abc''))" "\<not> hasMinusSign (JStr (ascii ''abc''))"
    by (simp_all add: ascii_def isWhiteSpace_def)
  have u: "(0::rat) \<le> 1 / 4 \<and> (1 / 4 :: rat) < 1" by simp
  have t: "toll (formRecord sampleDraws (1 / 4) (ascii ''A'') (ascii ''B'') (ascii ''abc'')) = 2250"
    by (simp add: formRecord_def simulateTollFee_def Let_def)
  have i: "toll (importRecord sampleDraws 0 ?row) = 1500"
    by (simp add: importRecord_def k orZero_parseInt_number)
  from amounts_nonnegative [where u = "1 / 4" and d = sampleDraws and sp = "ascii ''A''"
      and ep = "ascii ''B''" and fc = "ascii ''abc''" and r = ?row and k = 0]
    amounts_nonnegative [where d = sampleDraws and r = ?odd and k = 0]
  show ?thesis using k n u t i by simp
qed

text \<open>
  The claim fails in both parts. A row whose toll cell is the number -100 is imported
  with toll -100, which is negative. The text \<^verbatim>\<open>15 liters\<close> is not numeric, and as the
  fuel of an imported row and as the fuel text of the form it gives the fuel 15, not 0.
\<close>

theorem negative_amount_counterexample:
  "map toll (records (handleUpload steadyDraws (Some [[(keyToll, JNum (- 100))]])
      emptyState)) = [- 100]
   \<and> \<not> 0 \<le> (- 100 :: int)
   \<and> \<not> isNumeric (JStr (ascii ''15 liters''))
   \<and> map fuel (records (handleUpload steadyDraws
        (Some [[(keyFuel, JStr (ascii ''15 liters''))]]) emptyState)) = [15]
   \<and> map fuel (records (handleFormSubmit sampleDraws (1 / 4) (ascii ''A'') (ascii ''B'')
        (ascii ''15 liters'') emptyState)) = [15]
   \<and> (15 :: int) \<noteq> 0"
proof -
  have k: "column [(keyToll, JNum (- 100))] keyToll = JNum (- 100)"
    "column [(keyFuel, JStr (ascii ''15 liters''))] keyFuel = JStr (ascii ''15 liters'')"
    by (simp_all add: column_def)
  have i: "toll (importRecord sampleDraws 0 [(keyToll, JNum (- 100))]) = - 100"
    by (simp add: importRecord_def k orZero_parseInt_number)
  have n: "\<not> isNumeric (JStr (ascii ''15 liters''))"
    by (simp add: Let_def ascii_def trim_def isWhiteSpace_def isDecimalDigit_def)
  have p: "orZero (parseInt (JStr (ascii ''15 liters''))) = 15"
    by (simp add: orZero_def parseInt_def ascii_def isWhiteSpace_def isRadixDigit_def
        digitValue_def radixValue_def)
  have j: "fuel (importRecord sampleDraws 0 [(keyFuel, JStr (ascii ''15 liters''))]) = 15"
    by (simp add: importRecord_def k p)
  have v: "validateForm (ascii ''A'') (ascii ''B'')"
    by (simp add: validateForm_def trim_def ascii_def isWhiteSpace_def)
  have f: "fuel (formRecord sampleDraws (1 / 4) (ascii ''A'') (ascii ''B'') (ascii ''15 liters''))
      = 15"
    by (simp add: formRecord_def Let_def p)
  show ?thesis
    by (simp add: n handleUpload_records emptyState_def i j handleFormSubmit_def v addRecord_def f
        del: isNumeric.simps)
qed

end
